theory Spec2Isabelle
  imports Main "HOL-Library.AList" "HOL-Library.Sublist" "HOL-Library.Multiset"
begin

section \<open>Shared schema\<close>

text \<open>
  Timestamps are the millisecond values of JavaScript \<^verbatim>\<open>Date\<close> objects. Every
  \<^verbatim>\<open>new Date()\<close> of the source is one reading of the wall clock and is passed to the
  model as an argument of its own.
\<close>

type_synonym timestamp = int

text \<open>
  The status of an order is declared \<^verbatim>\<open>string\<close>, but nothing checks it at run time:
  the manual trigger takes it from an untyped request body, where it may be missing
  (\<^verbatim>\<open>undefined\<close>), and the simulator takes it from a table lookup, which for a key such as
  \<^verbatim>\<open>constructor\<close> finds the member that every object inherits from
  \<^verbatim>\<open>Object.prototype\<close>. \<open>Inherited n\<close> is that member, a function (for \<^verbatim>\<open>__proto__\<close>
  the prototype object).
\<close>

datatype js_value = Undefined | Str string | Inherited string

text \<open>The property names every object inherits.\<close>

definition object_prototype_names :: "string list" where
  "object_prototype_names =
     [''constructor'', ''__defineGetter__'', ''__defineSetter__'', ''hasOwnProperty'',
      ''__lookupGetter__'', ''__lookupSetter__'', ''isPrototypeOf'', ''propertyIsEnumerable'',
      ''toString'', ''valueOf'', ''__proto__'', ''toLocaleString'']"

text \<open>
  Conversion to a string, as a template literal and a property access do it. A built-in
  member that is a function prints as its native-code source text.
\<close>

fun to_string :: "js_value \<Rightarrow> string" where
  "to_string Undefined = ''undefined''"
| "to_string (Str s) = s"
| "to_string (Inherited n) =
     (if n = ''__proto__'' then ''[object Object]''
      else ''function '' @ (if n = ''constructor'' then ''Object'' else n)
             @ ''() { [native code] }'')"

fun truthy :: "js_value \<Rightarrow> bool" where
  "truthy Undefined = False"
| "truthy (Str s) = (s \<noteq> [])"
| "truthy (Inherited n) = True"

record InsertOrder =
  orderId :: string
  customerId :: string
  customerName :: string
  totalAmount :: string
  itemCount :: int
  status :: js_value

record Order = InsertOrder +
  id_order :: nat
  createdAt :: timestamp
  updatedAt :: timestamp

text \<open>\<^verbatim>\<open>Partial<InsertOrder>\<close>: \<open>None\<close> is a key that is not supplied.\<close>

record PartialInsertOrder =
  p_orderId :: "string option"
  p_customerId :: "string option"
  p_customerName :: "string option"
  p_totalAmount :: "string option"
  p_itemCount :: "int option"
  p_status :: "js_value option"

record InsertOrderMessage =
  msg_orderId :: string
  messageType :: string
  content :: string
  metadata :: "(string \<times> bool) list option"

record OrderMessage = InsertOrderMessage +
  msg_id :: nat
  msg_timestamp :: timestamp

record InsertOrderStatusHistory =
  hist_orderId :: string
  hist_status :: js_value
  title :: js_value
  description :: js_value
  operator :: string
  duration :: "string option"

record OrderStatusHistory = InsertOrderStatusHistory +
  hist_id :: nat
  hist_timestamp :: timestamp

definition PENDING :: string where "PENDING = ''pending''"
definition CONFIRMED :: string where "CONFIRMED = ''confirmed''"
definition PROCESSING :: string where "PROCESSING = ''processing''"
definition SHIPPED :: string where "SHIPPED = ''shipped''"
definition DELIVERED :: string where "DELIVERED = ''delivered''"
definition CANCELLED :: string where "CANCELLED = ''cancelled''"

definition STATUS_UPDATE :: string where "STATUS_UPDATE = ''status_update''"

section \<open>MemStorage\<close>

text \<open>
  The three collections are JavaScript \<^verbatim>\<open>Map\<close>s, which keep their keys in insertion
  order: \<^verbatim>\<open>set\<close> on a key that is present replaces the value in place
  (\<^const>\<open>AList.update\<close>), \<^verbatim>\<open>delete\<close> removes the entry (\<^const>\<open>AList.delete\<close>).
  One counter numbers orders, messages and history entries alike.
\<close>

record MemStorage =
  orders :: "(string \<times> Order) list"
  messages :: "(string \<times> OrderMessage list) list"
  statusHistory :: "(string \<times> OrderStatusHistory list) list"
  currentId :: nat

definition MemStorage_new :: MemStorage where
  "MemStorage_new = \<lparr>orders = [], messages = [], statusHistory = [], currentId = 1\<rparr>"

definition getOrder :: "MemStorage \<Rightarrow> string \<Rightarrow> Order option" where
  "getOrder s oid = map_of (orders s) oid"

text \<open>\<open>t_created\<close> and \<open>t_updated\<close> are the two clock readings of the object literal.\<close>

definition createOrder ::
  "MemStorage \<Rightarrow> InsertOrder \<Rightarrow> timestamp \<Rightarrow> timestamp \<Rightarrow> MemStorage \<times> Order" where
  "createOrder s insertOrder t_created t_updated =
     (let ident = currentId s;
          order = \<lparr>orderId = orderId insertOrder,
                   customerId = customerId insertOrder,
                   customerName = customerName insertOrder,
                   totalAmount = totalAmount insertOrder,
                   itemCount = itemCount insertOrder,
                   status = status insertOrder,
                   id_order = ident,
                   createdAt = t_created,
                   updatedAt = t_updated\<rparr>
      in (s\<lparr>orders := AList.update (orderId insertOrder) order (orders s),
            currentId := ident + 1\<rparr>, order))"

text \<open>The object spread: a supplied key replaces the field, a missing one keeps it.\<close>

definition spread :: "'a \<Rightarrow> 'a option \<Rightarrow> 'a" where
  "spread old supplied = (case supplied of None \<Rightarrow> old | Some v \<Rightarrow> v)"

definition merge_updates :: "Order \<Rightarrow> PartialInsertOrder \<Rightarrow> timestamp \<Rightarrow> Order" where
  "merge_updates order updates now =
     \<lparr>orderId = spread (orderId order) (p_orderId updates),
      customerId = spread (customerId order) (p_customerId updates),
      customerName = spread (customerName order) (p_customerName updates),
      totalAmount = spread (totalAmount order) (p_totalAmount updates),
      itemCount = spread (itemCount order) (p_itemCount updates),
      status = spread (status order) (p_status updates),
      id_order = id_order order,
      createdAt = createdAt order,
      updatedAt = now\<rparr>"

definition updateOrder ::
  "MemStorage \<Rightarrow> string \<Rightarrow> PartialInsertOrder \<Rightarrow> timestamp \<Rightarrow> MemStorage \<times> Order option" where
  "updateOrder s oid updates now =
     (case map_of (orders s) oid of
        None \<Rightarrow> (s, None)
      | Some order \<Rightarrow>
          (let updatedOrder = merge_updates order updates now
           in (s\<lparr>orders := AList.update oid updatedOrder (orders s)\<rparr>, Some updatedOrder)))"

text \<open>
  \<^verbatim>\<open>Array.prototype.slice(0, end)\<close>: a negative \<open>end\<close> counts from the end of the array.
\<close>

definition slice0 :: "'a list \<Rightarrow> int \<Rightarrow> 'a list" where
  "slice0 xs end_ix =
     (if end_ix < 0 then take (nat (int (length xs) + end_ix)) xs else take (nat end_ix) xs)"

text \<open>
  \<^verbatim>\<open>Array.prototype.sort\<close> is stable; with the comparator
  \<^verbatim>\<open>b.updatedAt - a.updatedAt\<close> it is the stable sort on the negated timestamp.
  \<open>None\<close> is a call without the argument, which takes the default 10.
\<close>

definition getRecentOrders :: "MemStorage \<Rightarrow> int option \<Rightarrow> Order list" where
  "getRecentOrders s limit =
     (let lim = (case limit of None \<Rightarrow> 10 | Some n \<Rightarrow> n);
          allOrders = map snd (orders s)
      in slice0 (sort_key (\<lambda>ord. - updatedAt ord) allOrders) lim)"

definition getOrderMessages :: "MemStorage \<Rightarrow> string \<Rightarrow> OrderMessage list" where
  "getOrderMessages s oid = (case map_of (messages s) oid of None \<Rightarrow> [] | Some ms \<Rightarrow> ms)"

definition addOrderMessage ::
  "MemStorage \<Rightarrow> InsertOrderMessage \<Rightarrow> timestamp \<Rightarrow> MemStorage \<times> OrderMessage" where
  "addOrderMessage s insertMessage now =
     (let ident = currentId s;
          message = \<lparr>msg_orderId = msg_orderId insertMessage,
                     messageType = messageType insertMessage,
                     content = content insertMessage,
                     metadata = metadata insertMessage,
                     msg_id = ident,
                     msg_timestamp = now\<rparr>;
          orderMessages = getOrderMessages s (msg_orderId insertMessage)
      in (s\<lparr>messages := AList.update (msg_orderId insertMessage) (orderMessages @ [message])
                           (messages s),
            currentId := ident + 1\<rparr>, message))"

definition clearOrderMessages :: "MemStorage \<Rightarrow> string \<Rightarrow> MemStorage" where
  "clearOrderMessages s oid = s\<lparr>messages := AList.delete oid (messages s)\<rparr>"

definition getOrderStatusHistory :: "MemStorage \<Rightarrow> string \<Rightarrow> OrderStatusHistory list" where
  "getOrderStatusHistory s oid =
     (case map_of (statusHistory s) oid of None \<Rightarrow> [] | Some hs \<Rightarrow> hs)"

text \<open>\<^verbatim>\<open>duration || null\<close>: a missing or empty duration is stored as null.\<close>

definition or_null :: "string option \<Rightarrow> string option" where
  "or_null d = (case d of None \<Rightarrow> None | Some v \<Rightarrow> (if v = [] then None else Some v))"

definition addOrderStatusHistory ::
  "MemStorage \<Rightarrow> InsertOrderStatusHistory \<Rightarrow> timestamp \<Rightarrow> MemStorage \<times> OrderStatusHistory" where
  "addOrderStatusHistory s insertHistory now =
     (let ident = currentId s;
          history = \<lparr>hist_orderId = hist_orderId insertHistory,
                     hist_status = hist_status insertHistory,
                     title = title insertHistory,
                     description = description insertHistory,
                     operator = operator insertHistory,
                     duration = or_null (duration insertHistory),
                     hist_id = ident,
                     hist_timestamp = now\<rparr>;
          orderHistory = getOrderStatusHistory s (hist_orderId insertHistory)
      in (s\<lparr>statusHistory := AList.update (hist_orderId insertHistory) (orderHistory @ [history])
                                (statusHistory s),
            currentId := ident + 1\<rparr>, history))"

section \<open>MockKafkaService\<close>

text \<open>
  Events handed to the connected clients. \<open>connection_status\<close> carries the fields of the
  subscription-aware handshake: connected, timestamp, clientId and subscribedTo.
\<close>

datatype message =
    order_update Order
  | connection_status bool timestamp string string
  | other_message string

record ws_client =
  readyState :: nat
  sent :: "message list"

definition OPEN :: nat where "OPEN = 1"

text \<open>
  What \<^verbatim>\<open>initialize\<close> is given and stores as \<^verbatim>\<open>wss\<close>: the WebSocket version of the
  route table passes its WebSocket server, the two server-sent-event versions pass their
  broadcast function. \<open>wss = None\<close> is the service before \<^verbatim>\<open>initialize\<close>. The
  timer that \<^verbatim>\<open>initialize\<close> starts is not part of the state: each of its ticks is one
  call of the simulator.
\<close>

datatype wss_value = WebSocketServer "ws_client list" | BroadcastFunction

datatype js_error = TypeError

record MockKafkaService =
  wss :: "wss_value option"
  isConnected :: bool

definition initialize :: "MockKafkaService \<Rightarrow> wss_value \<Rightarrow> MockKafkaService" where
  "initialize svc webSocketServer = svc\<lparr>wss := Some webSocketServer, isConnected := True\<rparr>"

record system =
  storage :: MemStorage
  kafka :: MockKafkaService

text \<open>An array read out of range gives \<^verbatim>\<open>undefined\<close>.\<close>

definition nth_opt :: "'a list \<Rightarrow> nat \<Rightarrow> 'a option" where
  "nth_opt xs i = (if i < length xs then Some (xs ! i) else None)"

definition sampleOrders :: "string list" where
  "sampleOrders = [''ORD-2024-001'', ''ORD-2024-002'', ''ORD-2024-003'']"

text \<open>
  The lookup tables are object literals. \<^verbatim>\<open>table[key]\<close> gives the entry the literal
  lists under the key, else the inherited member of that name, else \<^verbatim>\<open>undefined\<close>.
\<close>

definition js_get :: "(string \<times> string) list \<Rightarrow> string \<Rightarrow> js_value" where
  "js_get table key =
     (case map_of table key of
        Some v \<Rightarrow> Str v
      | None \<Rightarrow> (if key \<in> set object_prototype_names then Inherited key else Undefined))"

definition statusProgression :: "(string \<times> string) list" where
  "statusProgression =
     [(''pending'', ''confirmed''),
      (''confirmed'', ''processing''),
      (''processing'', ''shipped''),
      (''shipped'', ''delivered'')]"

definition titles :: "(string \<times> string) list" where
  "titles =
     [(PENDING, ''Order Placed''),
      (CONFIRMED, ''Order Confirmed''),
      (PROCESSING, ''Processing''),
      (SHIPPED, ''Shipped''),
      (DELIVERED, ''Delivered''),
      (CANCELLED, ''Cancelled'')]"

definition descriptions :: "(string \<times> string) list" where
  "descriptions =
     [(PENDING, ''Your order has been placed and is awaiting confirmation.''),
      (CONFIRMED, ''Your order has been confirmed and is being prepared for processing.''),
      (PROCESSING, ''Items are being prepared and packaged for shipment.''),
      (SHIPPED, ''Your order has been shipped and is on its way.''),
      (DELIVERED, ''Your order has been delivered successfully.''),
      (CANCELLED, ''Your order has been cancelled.'')]"

text \<open>\<^verbatim>\<open>table[key] || fallback\<close>.\<close>

definition lookup_or :: "(string \<times> string) list \<Rightarrow> string \<Rightarrow> string \<Rightarrow> js_value" where
  "lookup_or table key fallback =
     (let v = js_get table key in if truthy v then v else Str fallback)"

definition getStatusTitle :: "js_value \<Rightarrow> js_value" where
  "getStatusTitle st = lookup_or titles (to_string st) ''Status Update''"

definition getStatusDescription :: "js_value \<Rightarrow> js_value" where
  "getStatusDescription st = lookup_or descriptions (to_string st) ''Status has been updated.''"

definition durations :: "string list" where
  "durations = [''2m'', ''5m'', ''15m'', ''30m'', ''1h'', ''2h'']"

text \<open>\<open>r\<close> is \<^verbatim>\<open>Math.floor(Math.random() * durations.length)\<close>.\<close>

definition getRandomDuration :: "nat \<Rightarrow> string option" where
  "getRandomDuration r = nth_opt durations r"

text \<open>The object literal \<^verbatim>\<open>{ status: newStatus }\<close>.\<close>

definition status_only :: "js_value \<Rightarrow> PartialInsertOrder" where
  "status_only newStatus =
     \<lparr>p_orderId = None, p_customerId = None, p_customerName = None,
      p_totalAmount = None, p_itemCount = None, p_status = Some newStatus\<rparr>"

text \<open>
  \<^verbatim>\<open>this.wss.clients.forEach\<close>: a function has no \<^verbatim>\<open>clients\<close>, so when the
  broadcast function is stored as \<^verbatim>\<open>wss\<close> the call throws a \<^verbatim>\<open>TypeError\<close>.
\<close>

definition broadcastToClients ::
  "MockKafkaService \<Rightarrow> message \<Rightarrow> js_error + MockKafkaService" where
  "broadcastToClients svc msg =
     (case wss svc of
        None \<Rightarrow> Inr svc
      | Some BroadcastFunction \<Rightarrow> Inl TypeError
      | Some (WebSocketServer clients) \<Rightarrow>
          Inr (svc\<lparr>wss := Some (WebSocketServer
                              (map (\<lambda>client. if readyState client = OPEN
                                              then client\<lparr>sent := sent client @ [msg]\<rparr>
                                              else client) clients))\<rparr>))"

text \<open>
  What one run reads from its environment: the two random draws and the clock readings of
  the three store calls. The simulator runs inside \<^verbatim>\<open>try\<close>: an error of the broadcast
  is caught and logged, after the store has been written. The manual trigger has no
  \<^verbatim>\<open>try\<close>: it returns the system as the call leaves it, and the error it throws, if any.
\<close>

record tick_env =
  rnd_order :: nat
  rnd_duration :: nat
  t_update :: timestamp
  t_history :: timestamp
  t_message :: timestamp

definition simulateOrderUpdate :: "system \<Rightarrow> tick_env \<Rightarrow> system" where
  "simulateOrderUpdate sys env =
     (case nth_opt sampleOrders (rnd_order env) of
        None \<Rightarrow> sys
      | Some randomOrderId \<Rightarrow>
          (case getOrder (storage sys) randomOrderId of
             None \<Rightarrow> sys
           | Some currentOrder \<Rightarrow>
               if \<not> truthy (js_get statusProgression (to_string (status currentOrder))) then sys
               else
                 (let newStatus = js_get statusProgression (to_string (status currentOrder));
                      (st1, updatedOrder) =
                        updateOrder (storage sys) randomOrderId
                          (status_only newStatus) (t_update env)
                  in case updatedOrder of
                       None \<Rightarrow> sys\<lparr>storage := st1\<rparr>
                     | Some updated \<Rightarrow>
                         (let (st2, h) =
                                addOrderStatusHistory st1
                                  \<lparr>hist_orderId = randomOrderId,
                                   hist_status = newStatus,
                                   title = getStatusTitle newStatus,
                                   description = getStatusDescription newStatus,
                                   operator = ''System'',
                                   duration = getRandomDuration (rnd_duration env)\<rparr>
                                  (t_history env);
                              (st3, m) =
                                addOrderMessage st2
                                  \<lparr>msg_orderId = randomOrderId,
                                   messageType = STATUS_UPDATE,
                                   content = ''Order status updated to '' @ to_string newStatus,
                                   metadata = Some [(''simulatedUpdate'', True)]\<rparr>
                                  (t_message env)
                          in case broadcastToClients (kafka sys) (order_update updated) of
                               Inr svc \<Rightarrow> \<lparr>storage = st3, kafka = svc\<rparr>
                             | Inl e \<Rightarrow> \<lparr>storage = st3, kafka = kafka sys\<rparr>))))"

definition triggerOrderUpdate ::
  "system \<Rightarrow> string \<Rightarrow> js_value \<Rightarrow> tick_env \<Rightarrow> system \<times> js_error option" where
  "triggerOrderUpdate sys oid newStatus env =
     (let (st1, order) =
            updateOrder (storage sys) oid
              (status_only newStatus) (t_update env)
      in case order of
           None \<Rightarrow> (sys\<lparr>storage := st1\<rparr>, None)
         | Some updated \<Rightarrow>
             (let (st2, h) =
                    addOrderStatusHistory st1
                      \<lparr>hist_orderId = oid,
                       hist_status = newStatus,
                       title = getStatusTitle newStatus,
                       description = getStatusDescription newStatus,
                       operator = ''Manual'',
                       duration = getRandomDuration (rnd_duration env)\<rparr>
                      (t_history env);
                  (st3, m) =
                    addOrderMessage st2
                      \<lparr>msg_orderId = oid,
                       messageType = STATUS_UPDATE,
                       content = ''Order status manually updated to '' @ to_string newStatus,
                       metadata = Some [(''manualUpdate'', True)]\<rparr>
                      (t_message env)
              in case broadcastToClients (kafka sys) (order_update updated) of
                   Inr svc \<Rightarrow> (\<lparr>storage = st3, kafka = svc\<rparr>, None)
                 | Inl e \<Rightarrow> (\<lparr>storage = st3, kafka = kafka sys\<rparr>, Some e)))"

section \<open>Routes\<close>

text \<open>A JSON response: the HTTP status code and the body.\<close>

datatype body =
    success_json string
  | error_json string
  | order_json Order
  | orders_json "Order list"

type_synonym http_response = "nat \<times> body"

text \<open>
  \<^verbatim>\<open>GET /api/orders\<close>. \<open>q\<close> is \<^verbatim>\<open>parseInt(req.query.limit)\<close>, \<open>None\<close> for
  \<^verbatim>\<open>NaN\<close>; \<^verbatim>\<open>|| 10\<close> replaces \<^verbatim>\<open>NaN\<close> and 0.
\<close>

definition get_orders :: "MemStorage \<Rightarrow> int option \<Rightarrow> http_response" where
  "get_orders s q =
     (let limit = (case q of None \<Rightarrow> 10 | Some n \<Rightarrow> (if n = 0 then 10 else n))
      in (200, orders_json (getRecentOrders s (Some limit))))"

text \<open>
  \<^verbatim>\<open>POST /api/orders\<close>. \<open>parse\<close> is \<^verbatim>\<open>insertOrderSchema.parse\<close> of the validation
  library, \<open>None\<close> where it throws.
\<close>

definition post_orders ::
  "('b \<Rightarrow> InsertOrder option) \<Rightarrow> MemStorage \<Rightarrow> 'b \<Rightarrow> timestamp \<Rightarrow> timestamp
     \<Rightarrow> MemStorage \<times> http_response" where
  "post_orders parse s req_body t_created t_updated =
     (case parse req_body of
        None \<Rightarrow> (s, (400, error_json ''Invalid order data''))
      | Some validatedData \<Rightarrow>
          (let (s', order) = createOrder s validatedData t_created t_updated
           in (s', (200, order_json order))))"

text \<open>
  \<^verbatim>\<open>POST /api/orders/:orderId/trigger-update\<close>, as the two server-sent-event versions of
  the route table have it. \<open>st\<close> is \<^verbatim>\<open>req.body.status\<close>. An error thrown by the trigger
  is caught and answered with 500.
\<close>

definition trigger_update_sse ::
  "system \<Rightarrow> string \<Rightarrow> js_value \<Rightarrow> tick_env \<Rightarrow> system \<times> http_response" where
  "trigger_update_sse sys oid st env =
     (case triggerOrderUpdate sys oid st env of
        (sys', None) \<Rightarrow> (sys', (200, success_json ''Order update triggered''))
      | (sys', Some e) \<Rightarrow> (sys', (500, error_json ''Failed to trigger update'')))"

text \<open>The same route in the WebSocket version of the route table.\<close>

definition trigger_update_ws ::
  "system \<Rightarrow> string \<Rightarrow> js_value \<Rightarrow> tick_env \<Rightarrow> system \<times> http_response" where
  "trigger_update_ws sys oid st env =
     (if \<not> truthy st then (sys, (400, error_json ''Status is required''))
      else
        (case triggerOrderUpdate sys oid st env of
           (sys', None) \<Rightarrow>
             (sys', (200, success_json (''Order '' @ oid @ '' updated to '' @ to_string st)))
         | (sys', Some e) \<Rightarrow> (sys', (500, error_json ''Failed to trigger order update''))))"

subsection \<open>Server-sent events with subscriptions\<close>

text \<open>
  A response stream: what has been written to it, and whether \<^verbatim>\<open>write\<close> throws.
\<close>

record Response =
  written :: "message list"
  write_throws :: bool

record SSEClient =
  response :: Response
  subscribedOrders :: "string set"
  clientId :: string

definition res_write :: "Response \<Rightarrow> message \<Rightarrow> Response option" where
  "res_write res msg =
     (if write_throws res then None else Some (res\<lparr>written := written res @ [msg]\<rparr>))"

text \<open>
  One pass of \<^verbatim>\<open>sseClients.forEach\<close>: a client that is selected is written to; when the
  write throws, \<^verbatim>\<open>sseClients.delete(client.clientId)\<close> drops the entry being visited
  (every entry is stored under its own \<open>clientId\<close>).
\<close>

fun send_where ::
  "(SSEClient \<Rightarrow> bool) \<Rightarrow> message \<Rightarrow> (string \<times> SSEClient) list \<Rightarrow> (string \<times> SSEClient) list"
  where
  "send_where sel msg [] = []"
| "send_where sel msg ((k, client) # rest) =
     (if sel client then
        (case res_write (response client) msg of
           Some res' \<Rightarrow> (k, client\<lparr>response := res'\<rparr>) # send_where sel msg rest
         | None \<Rightarrow> send_where sel msg rest)
      else (k, client) # send_where sel msg rest)"

text \<open>The broadcast function handed to the service.\<close>

definition sse_broadcast ::
  "message \<Rightarrow> (string \<times> SSEClient) list \<Rightarrow> (string \<times> SSEClient) list" where
  "sse_broadcast msg sseClients =
     (case msg of
        order_update data \<Rightarrow>
          send_where (\<lambda>client. orderId data \<in> subscribedOrders client) msg sseClients
      | _ \<Rightarrow> send_where (\<lambda>client. True) msg sseClients)"

text \<open>
  \<^verbatim>\<open>GET /api/events\<close>. \<open>q\<close> is \<^verbatim>\<open>req.query.orderId\<close>, \<open>cid\<close> the generated client id,
  \<open>connected\<close> the service's connection status, \<open>res\<close> the new response stream.
\<close>

definition events_connect ::
  "(string \<times> SSEClient) list \<Rightarrow> js_value \<Rightarrow> string \<Rightarrow> bool \<Rightarrow> timestamp \<Rightarrow> Response
     \<Rightarrow> (string \<times> SSEClient) list" where
  "events_connect sseClients q cid connected now res =
     (let client = \<lparr>response = res,
                    subscribedOrders = (if truthy q then {to_string q} else {}),
                    clientId = cid\<rparr>;
          clients1 = AList.update cid client sseClients
      in case res_write res (connection_status connected now cid
                           (if truthy q then to_string q else ''all_orders'')) of
           None \<Rightarrow> AList.delete cid clients1
         | Some res' \<Rightarrow> AList.update cid (client\<lparr>response := res'\<rparr>) clients1)"

text \<open>\<^verbatim>\<open>POST /api/events/subscribe\<close> and \<^verbatim>\<open>/unsubscribe\<close>.\<close>

definition events_subscribe ::
  "(string \<times> SSEClient) list \<Rightarrow> js_value \<Rightarrow> js_value
     \<Rightarrow> (string \<times> SSEClient) list \<times> http_response" where
  "events_subscribe sseClients cid oid =
     (if \<not> truthy cid \<or> \<not> truthy oid
      then (sseClients, (400, error_json ''clientId and orderId required''))
      else
        (case map_of sseClients (to_string cid) of
           None \<Rightarrow> (sseClients, (404, error_json ''Client not found''))
         | Some client \<Rightarrow>
             (AList.update (to_string cid)
                (client\<lparr>subscribedOrders := insert (to_string oid) (subscribedOrders client)\<rparr>)
                sseClients,
              (200, success_json (''Subscribed to order '' @ to_string oid)))))"

definition events_unsubscribe ::
  "(string \<times> SSEClient) list \<Rightarrow> js_value \<Rightarrow> js_value
     \<Rightarrow> (string \<times> SSEClient) list \<times> http_response" where
  "events_unsubscribe sseClients cid oid =
     (if \<not> truthy cid \<or> \<not> truthy oid
      then (sseClients, (400, error_json ''clientId and orderId required''))
      else
        (case map_of sseClients (to_string cid) of
           None \<Rightarrow> (sseClients, (404, error_json ''Client not found''))
         | Some client \<Rightarrow>
             (AList.update (to_string cid)
                (client\<lparr>subscribedOrders := subscribedOrders client - {to_string oid}\<rparr>)
                sseClients,
              (200, success_json (''Unsubscribed from order '' @ to_string oid)))))"

section \<open>Server start\<close>

text \<open>
  The start-up code creates three default orders when the store is empty. Each
  \<open>c\<close> is the pair of clock readings of one \<^verbatim>\<open>createOrder\<close> call.
\<close>

definition startup ::
  "MemStorage \<Rightarrow> timestamp \<times> timestamp \<Rightarrow> timestamp \<times> timestamp \<Rightarrow> timestamp \<times> timestamp
     \<Rightarrow> MemStorage" where
  "startup s c1 c2 c3 =
     (let existingOrders = getRecentOrders s (Some 5)
      in if length existingOrders = 0 then
           (let s1 = fst (createOrder s
                       \<lparr>orderId = ''ORD-2024-001'', customerId = ''CUST-123'',
                        customerName = ''John Doe'', totalAmount = ''89.99'', itemCount = 3,
                        status = Str ''pending''\<rparr> (fst c1) (snd c1));
                s2 = fst (createOrder s1
                       \<lparr>orderId = ''ORD-2024-002'', customerId = ''CUST-456'',
                        customerName = ''Jane Smith'', totalAmount = ''159.50'', itemCount = 2,
                        status = Str ''confirmed''\<rparr> (fst c2) (snd c2));
                s3 = fst (createOrder s2
                       \<lparr>orderId = ''ORD-2024-003'', customerId = ''CUST-789'',
                        customerName = ''Bob Johnson'', totalAmount = ''45.00'', itemCount = 1,
                        status = Str ''processing''\<rparr> (fst c3) (snd c3))
            in s3)
         else s)"

section \<open>Scenario data\<close>

text \<open>The order of the test scenarios, and the store right after a start at time 1000.\<close>

definition test_order :: InsertOrder where
  "test_order =
     \<lparr>orderId = ''ORD-TEST-1'', customerId = ''CUST-TEST'', customerName = ''Test Customer'',
      totalAmount = ''10.00'', itemCount = 1, status = Str ''pending''\<rparr>"

definition started :: MemStorage where
  "started = startup MemStorage_new (1000, 1000) (1000, 1000) (1000, 1000)"

text \<open>
  The running system after that start under the WebSocket route table, with one open and one
  closed client; the same under a server-sent-event route table; and the readings of one
  run: first sample order, third duration, clock at 2000, 2001, 2002.
\<close>

definition demo_system :: system where
  "demo_system =
     \<lparr>storage = started,
      kafka = initialize \<lparr>wss = None, isConnected = False\<rparr>
                (WebSocketServer [\<lparr>readyState = 1, sent = []\<rparr>, \<lparr>readyState = 3, sent = []\<rparr>])\<rparr>"

definition sse_system :: system where
  "sse_system =
     \<lparr>storage = started,
      kafka = initialize \<lparr>wss = None, isConnected = False\<rparr> BroadcastFunction\<rparr>"

definition demo_env :: tick_env where
  "demo_env =
     \<lparr>rnd_order = 0, rnd_duration = 2, t_update = 2000, t_history = 2001, t_message = 2002\<rparr>"

section \<open>Sequences of store calls\<close>

text \<open>
  A caller's calls on the store that do not clear a log, run in order.
\<close>

datatype store_op =
    AppendMessage InsertOrderMessage timestamp
  | AppendStatusHistory InsertOrderStatusHistory timestamp
  | CreateOrder InsertOrder timestamp timestamp
  | UpdateOrder string PartialInsertOrder timestamp

fun apply_op :: "MemStorage \<Rightarrow> store_op \<Rightarrow> MemStorage" where
  "apply_op s (AppendMessage m now) = fst (addOrderMessage s m now)"
| "apply_op s (AppendStatusHistory h now) = fst (addOrderStatusHistory s h now)"
| "apply_op s (CreateOrder ins t1 t2) = fst (createOrder s ins t1 t2)"
| "apply_op s (UpdateOrder oid upd now) = fst (updateOrder s oid upd now)"

fun run_ops :: "MemStorage \<Rightarrow> store_op list \<Rightarrow> MemStorage" where
  "run_ops s [] = s"
| "run_ops s (x # xs) = run_ops (apply_op s x) xs"

section \<open>Properties of the store\<close>

lemma map_of_update_same: "map_of (AList.update k v al) k = Some v"
  by (simp add: update_conv')

lemma map_of_update_other: "k' \<noteq> k \<Longrightarrow> map_of (AList.update k v al) k' = map_of al k'"
  by (simp add: update_conv')

lemma map_of_delete_same: "map_of (AList.delete k al) k = None"
  by (simp add: delete_conv')

lemma map_of_delete_other: "k' \<noteq> k \<Longrightarrow> map_of (AList.delete k al) k' = map_of al k'"
  by (simp add: delete_conv')

lemma keys_update_present: "map_of al k = Some v' \<Longrightarrow> map fst (AList.update k v al) = map fst al"
  by (induct al) (auto split: if_splits)

lemma started_store:
  "orders started =
     [(''ORD-2024-001'',
       \<lparr>orderId = ''ORD-2024-001'', customerId = ''CUST-123'', customerName = ''John Doe'',
        totalAmount = ''89.99'', itemCount = 3, status = Str ''pending'',
        id_order = 1, createdAt = 1000, updatedAt = 1000\<rparr>),
      (''ORD-2024-002'',
       \<lparr>orderId = ''ORD-2024-002'', customerId = ''CUST-456'', customerName = ''Jane Smith'',
        totalAmount = ''159.50'', itemCount = 2, status = Str ''confirmed'',
        id_order = 2, createdAt = 1000, updatedAt = 1000\<rparr>),
      (''ORD-2024-003'',
       \<lparr>orderId = ''ORD-2024-003'', customerId = ''CUST-789'', customerName = ''Bob Johnson'',
        totalAmount = ''45.00'', itemCount = 1, status = Str ''processing'',
        id_order = 3, createdAt = 1000, updatedAt = 1000\<rparr>)]"
  "messages started = []"
  "statusHistory started = []"
  "currentId started = 4"
  by (simp_all add: started_def startup_def getRecentOrders_def slice0_def MemStorage_new_def
      createOrder_def Let_def)

text \<open>
  Claim C5, the part that holds and the code at the input where it departs from the claim.
  \<^verbatim>\<open>createOrder\<close> followed by \<^verbatim>\<open>getOrder\<close> on the same \<open>orderId\<close> returns the created
  record; its fields are those of the payload and its id is the value of the counter before
  the call. When both clock readings of the call give the same instant, \<open>createdAt\<close> equals
  \<open>updatedAt\<close>. When the clock moves from 1000 to 1001 between the two readings, the record
  that \<^verbatim>\<open>getOrder\<close> returns has different timestamps.
\<close>

theorem createOrder_then_getOrder:
  "getOrder (fst (createOrder s ins t1 t2)) (orderId ins) = Some (snd (createOrder s ins t1 t2))
   \<and> orderId (snd (createOrder s ins t1 t2)) = orderId ins
   \<and> customerId (snd (createOrder s ins t1 t2)) = customerId ins
   \<and> customerName (snd (createOrder s ins t1 t2)) = customerName ins
   \<and> totalAmount (snd (createOrder s ins t1 t2)) = totalAmount ins
   \<and> itemCount (snd (createOrder s ins t1 t2)) = itemCount ins
   \<and> status (snd (createOrder s ins t1 t2)) = status ins
   \<and> id_order (snd (createOrder s ins t1 t2)) = currentId s
   \<and> createdAt (snd (createOrder s ins t t)) = updatedAt (snd (createOrder s ins t t))
   \<and> map_option (\<lambda>ord. (createdAt ord, updatedAt ord))
        (getOrder (fst (createOrder MemStorage_new test_order 1000 1001)) ''ORD-TEST-1'')
      = Some (1000, 1001)
   \<and> map_option (\<lambda>ord. createdAt ord = updatedAt ord)
        (getOrder (fst (createOrder MemStorage_new test_order 1000 1001)) ''ORD-TEST-1'')
      = Some False"
  by (simp add: createOrder_def getOrder_def Let_def map_of_update_same MemStorage_new_def
      test_order_def)

text \<open>
  Claim C9. When the payload's \<open>orderId\<close> is already in the store, \<^verbatim>\<open>createOrder\<close>
  replaces the record under that key with a fresh one: the id is the counter's value (so it
  differs from the old id whenever the old id was handed out by the counter), both timestamps
  are new clock readings. No key is added, every other order is untouched, and the message
  log and the status history of every order, the overwritten one included, are as before.
  The route answers 200 with the new record; no error is produced.
\<close>

theorem createOrder_overwrites:
  assumes "getOrder s (orderId ins) = Some old"
    and "parse req_body = Some ins"
  shows "getOrder (fst (createOrder s ins t1 t2)) (orderId ins) = Some (snd (createOrder s ins t1 t2))
    \<and> snd (createOrder s ins t1 t2) =
        \<lparr>orderId = orderId ins, customerId = customerId ins, customerName = customerName ins,
         totalAmount = totalAmount ins, itemCount = itemCount ins, status = status ins,
         id_order = currentId s, createdAt = t1, updatedAt = t2\<rparr>
    \<and> (id_order old < currentId s \<longrightarrow> id_order (snd (createOrder s ins t1 t2)) \<noteq> id_order old)
    \<and> map fst (orders (fst (createOrder s ins t1 t2))) = map fst (orders s)
    \<and> (\<forall>k. k \<noteq> orderId ins \<longrightarrow> getOrder (fst (createOrder s ins t1 t2)) k = getOrder s k)
    \<and> (\<forall>k. getOrderMessages (fst (createOrder s ins t1 t2)) k = getOrderMessages s k)
    \<and> (\<forall>k. getOrderStatusHistory (fst (createOrder s ins t1 t2)) k = getOrderStatusHistory s k)
    \<and> post_orders parse s req_body t1 t2 =
        (fst (createOrder s ins t1 t2), (200, order_json (snd (createOrder s ins t1 t2))))"
  using assms
  by (simp add: createOrder_def getOrder_def post_orders_def Let_def map_of_update_same
      map_of_update_other keys_update_present getOrderMessages_def getOrderStatusHistory_def)

text \<open>
  Claim C9 at a concrete input: the first default order, with one message, is created again.
\<close>

theorem createOrder_overwrites_witness:
  "getOrder (fst (addOrderMessage started
                    \<lparr>msg_orderId = ''ORD-2024-001'', messageType = ''info'', content = ''hello'',
                     metadata = None\<rparr> 1500)) ''ORD-2024-001''
     = Some \<lparr>orderId = ''ORD-2024-001'', customerId = ''CUST-123'', customerName = ''John Doe'',
        totalAmount = ''89.99'', itemCount = 3, status = Str ''pending'',
        id_order = 1, createdAt = 1000, updatedAt = 1000\<rparr>
   \<and> snd (post_orders Some
             (fst (addOrderMessage started
                    \<lparr>msg_orderId = ''ORD-2024-001'', messageType = ''info'', content = ''hello'',
                     metadata = None\<rparr> 1500))
             (test_order\<lparr>orderId := ''ORD-2024-001''\<rparr>) 2000 2000)
     = (200, order_json
           \<lparr>orderId = ''ORD-2024-001'', customerId = ''CUST-TEST'',
            customerName = ''Test Customer'', totalAmount = ''10.00'', itemCount = 1,
            status = Str ''pending'', id_order = 5, createdAt = 2000, updatedAt = 2000\<rparr>)
   \<and> getOrderMessages
         (fst (createOrder
                 (fst (addOrderMessage started
                    \<lparr>msg_orderId = ''ORD-2024-001'', messageType = ''info'', content = ''hello'',
                     metadata = None\<rparr> 1500))
                 (test_order\<lparr>orderId := ''ORD-2024-001''\<rparr>) 2000 2000)) ''ORD-2024-001''
     = [\<lparr>msg_orderId = ''ORD-2024-001'', messageType = ''info'', content = ''hello'',
         metadata = None, msg_id = 4, msg_timestamp = 1500\<rparr>]"
proof -
  let ?s = "fst (addOrderMessage started
                    \<lparr>msg_orderId = ''ORD-2024-001'', messageType = ''info'', content = ''hello'',
                     metadata = None\<rparr> 1500)"
  let ?ins = "test_order\<lparr>orderId := ''ORD-2024-001''\<rparr>"
  have h: "getOrder ?s (orderId ?ins)
     = Some \<lparr>orderId = ''ORD-2024-001'', customerId = ''CUST-123'', customerName = ''John Doe'',
        totalAmount = ''89.99'', itemCount = 3, status = Str ''pending'',
        id_order = 1, createdAt = 1000, updatedAt = 1000\<rparr>"
    by (simp add: getOrder_def addOrderMessage_def Let_def started_store)
  have m: "getOrderMessages ?s ''ORD-2024-001''
     = [\<lparr>msg_orderId = ''ORD-2024-001'', messageType = ''info'', content = ''hello'',
         metadata = None, msg_id = 4, msg_timestamp = 1500\<rparr>]"
    by (simp add: getOrderMessages_def addOrderMessage_def Let_def started_store)
  have c: "currentId ?s = 5"
    by (simp add: addOrderMessage_def Let_def started_store)
  show ?thesis
    using h m c
      createOrder_overwrites [where parse = Some and req_body = "?ins", OF h, of 2000 2000]
    by (simp add: test_order_def)
qed

text \<open>
  Claim C6, as amended. For an order that exists, \<^verbatim>\<open>updateOrder\<close> returns and stores the
  old record with exactly the supplied fields replaced; fields that are not supplied, the id
  and \<open>createdAt\<close> are unchanged; \<open>updatedAt\<close> becomes the clock reading of the call,
  whatever the stored value is. Other orders, the key order, both logs and the counter are
  unchanged. For an \<open>orderId\<close> that is absent the call returns not-found and the store is
  unchanged.
\<close>

theorem updateOrder_merges:
  "(getOrder s oid = Some old \<longrightarrow>
      snd (updateOrder s oid upd now) = Some (merge_updates old upd now)
    \<and> getOrder (fst (updateOrder s oid upd now)) oid = Some (merge_updates old upd now)
    \<and> orderId (merge_updates old upd now)
        = (case p_orderId upd of None \<Rightarrow> orderId old | Some v \<Rightarrow> v)
    \<and> customerId (merge_updates old upd now)
        = (case p_customerId upd of None \<Rightarrow> customerId old | Some v \<Rightarrow> v)
    \<and> customerName (merge_updates old upd now)
        = (case p_customerName upd of None \<Rightarrow> customerName old | Some v \<Rightarrow> v)
    \<and> totalAmount (merge_updates old upd now)
        = (case p_totalAmount upd of None \<Rightarrow> totalAmount old | Some v \<Rightarrow> v)
    \<and> itemCount (merge_updates old upd now)
        = (case p_itemCount upd of None \<Rightarrow> itemCount old | Some v \<Rightarrow> v)
    \<and> status (merge_updates old upd now)
        = (case p_status upd of None \<Rightarrow> status old | Some v \<Rightarrow> v)
    \<and> id_order (merge_updates old upd now) = id_order old
    \<and> createdAt (merge_updates old upd now) = createdAt old
    \<and> updatedAt (merge_updates old upd now) = now
    \<and> (\<forall>k. k \<noteq> oid \<longrightarrow> getOrder (fst (updateOrder s oid upd now)) k = getOrder s k)
    \<and> map fst (orders (fst (updateOrder s oid upd now))) = map fst (orders s)
    \<and> messages (fst (updateOrder s oid upd now)) = messages s
    \<and> statusHistory (fst (updateOrder s oid upd now)) = statusHistory s
    \<and> currentId (fst (updateOrder s oid upd now)) = currentId s)
   \<and> (getOrder s oid = None \<longrightarrow> updateOrder s oid upd now = (s, None))"
  by (simp add: updateOrder_def getOrder_def merge_updates_def spread_def Let_def
      map_of_update_same map_of_update_other keys_update_present)

text \<open>
  Claim C6 at a concrete input: an update of the first default order, and of an absent one.
\<close>

theorem updateOrder_merges_witness:
  "getOrder started ''ORD-2024-001''
     = Some \<lparr>orderId = ''ORD-2024-001'', customerId = ''CUST-123'', customerName = ''John Doe'',
        totalAmount = ''89.99'', itemCount = 3, status = Str ''pending'',
        id_order = 1, createdAt = 1000, updatedAt = 1000\<rparr>
   \<and> snd (updateOrder started ''ORD-2024-001'' (status_only (Str ''shipped'')) 2000)
     = Some \<lparr>orderId = ''ORD-2024-001'', customerId = ''CUST-123'', customerName = ''John Doe'',
        totalAmount = ''89.99'', itemCount = 3, status = Str ''shipped'',
        id_order = 1, createdAt = 1000, updatedAt = 2000\<rparr>
   \<and> getOrder started ''ORD-TEST-1'' = None
   \<and> updateOrder started ''ORD-TEST-1'' (status_only (Str ''shipped'')) 2000 = (started, None)"
proof -
  let ?old = "\<lparr>orderId = ''ORD-2024-001'', customerId = ''CUST-123'', customerName = ''John Doe'',
        totalAmount = ''89.99'', itemCount = 3, status = Str ''pending'',
        id_order = 1, createdAt = 1000, updatedAt = 1000\<rparr>"
  have h: "getOrder started ''ORD-2024-001'' = Some ?old"
    by (simp add: getOrder_def started_store)
  have a: "getOrder started ''ORD-TEST-1'' = None"
    by (simp add: getOrder_def started_store)
  show ?thesis
    using h a
      updateOrder_merges [of started "''ORD-2024-001''" ?old "status_only (Str ''shipped'')" 2000]
      updateOrder_merges [of started "''ORD-TEST-1''" ?old "status_only (Str ''shipped'')" 2000]
    by (simp add: merge_updates_def spread_def status_only_def)
qed

text \<open>
  Claim C6 as stated fails: an update whose clock reading is 999 lowers the \<open>updatedAt\<close> of
  the first default order from 1000 to 999.
\<close>

theorem updateOrder_clock_counterexample:
  "map_option updatedAt (getOrder started ''ORD-2024-001'') = Some 1000
   \<and> map_option updatedAt
        (getOrder (fst (updateOrder started ''ORD-2024-001'' (status_only (Str ''shipped'')) 999))
           ''ORD-2024-001'')
      = Some 999"
  by (simp add: getOrder_def updateOrder_def started_store Let_def merge_updates_def spread_def
      status_only_def)

lemma getOrderMessages_add:
  "getOrderMessages (fst (addOrderMessage s m now)) k =
     (if k = msg_orderId m
      then getOrderMessages s k @ [snd (addOrderMessage s m now)]
      else getOrderMessages s k)"
  by (simp add: addOrderMessage_def getOrderMessages_def Let_def map_of_update_same
      map_of_update_other)

lemma getOrderStatusHistory_add:
  "getOrderStatusHistory (fst (addOrderStatusHistory s h now)) k =
     (if k = hist_orderId h
      then getOrderStatusHistory s k @ [snd (addOrderStatusHistory s h now)]
      else getOrderStatusHistory s k)"
  by (simp add: addOrderStatusHistory_def getOrderStatusHistory_def Let_def map_of_update_same
      map_of_update_other)

lemma getOrderMessages_addHistory:
  "getOrderMessages (fst (addOrderStatusHistory s h now)) k = getOrderMessages s k"
  by (simp add: addOrderStatusHistory_def getOrderMessages_def Let_def)

lemma getOrderStatusHistory_addMessage:
  "getOrderStatusHistory (fst (addOrderMessage s m now)) k = getOrderStatusHistory s k"
  by (simp add: addOrderMessage_def getOrderStatusHistory_def Let_def)

lemma logs_createOrder:
  "getOrderMessages (fst (createOrder s ins t1 t2)) k = getOrderMessages s k"
  "getOrderStatusHistory (fst (createOrder s ins t1 t2)) k = getOrderStatusHistory s k"
  by (simp_all add: createOrder_def getOrderMessages_def getOrderStatusHistory_def Let_def)

lemma logs_updateOrder:
  "getOrderMessages (fst (updateOrder s oid upd now)) k = getOrderMessages s k"
  "getOrderStatusHistory (fst (updateOrder s oid upd now)) k = getOrderStatusHistory s k"
  by (simp_all add: updateOrder_def getOrderMessages_def getOrderStatusHistory_def Let_def
      split: option.splits)

lemma apply_op_prefix:
  "prefix (getOrderMessages s k) (getOrderMessages (apply_op s x) k)"
  "prefix (getOrderStatusHistory s k) (getOrderStatusHistory (apply_op s x) k)"
  by (cases x; simp add: getOrderMessages_add getOrderStatusHistory_add
      getOrderMessages_addHistory getOrderStatusHistory_addMessage logs_createOrder
      logs_updateOrder)+

lemma run_ops_prefix:
  "prefix (getOrderMessages s k) (getOrderMessages (run_ops s xs) k)"
  "prefix (getOrderStatusHistory s k) (getOrderStatusHistory (run_ops s xs) k)"
proof (induction xs arbitrary: s)
  case Nil
  { case 1 show ?case by simp }
  { case 2 show ?case by simp }
next
  case (Cons x xs)
  { case 1
    have "prefix (getOrderMessages s k) (getOrderMessages (apply_op s x) k)"
      by (rule apply_op_prefix)
    also have "prefix \<dots> (getOrderMessages (run_ops (apply_op s x) xs) k)"
      by (rule Cons.IH)
    finally show ?case by simp }
  { case 2
    have "prefix (getOrderStatusHistory s k) (getOrderStatusHistory (apply_op s x) k)"
      by (rule apply_op_prefix)
    also have "prefix \<dots> (getOrderStatusHistory (run_ops (apply_op s x) xs) k)"
      by (rule Cons.IH)
    finally show ?case by simp }
qed

text \<open>
  Claim C7. Over any sequence of appends (and of order creations and updates), each order's
  message log and status history only grow at the end: what was returned before is a prefix
  of what is returned after, so lengths do not decrease and earlier entries keep their
  content and order. After \<^verbatim>\<open>clearOrderMessages\<close> the order's message log is empty, while
  the message logs of the other orders, every status history and the orders are unchanged.
\<close>

theorem logs_append_only:
  "prefix (getOrderMessages s k) (getOrderMessages (run_ops s xs) k)
   \<and> prefix (getOrderStatusHistory s k) (getOrderStatusHistory (run_ops s xs) k)
   \<and> length (getOrderMessages s k) \<le> length (getOrderMessages (run_ops s xs) k)
   \<and> length (getOrderStatusHistory s k) \<le> length (getOrderStatusHistory (run_ops s xs) k)
   \<and> getOrderMessages (clearOrderMessages s k) k = []
   \<and> (k' \<noteq> k \<longrightarrow> getOrderMessages (clearOrderMessages s k) k' = getOrderMessages s k')
   \<and> getOrderStatusHistory (clearOrderMessages s k) k' = getOrderStatusHistory s k'
   \<and> orders (clearOrderMessages s k) = orders s"
proof -
  have clear: "getOrderMessages (clearOrderMessages s k) k = []
      \<and> (k' \<noteq> k \<longrightarrow> getOrderMessages (clearOrderMessages s k) k' = getOrderMessages s k')
      \<and> getOrderStatusHistory (clearOrderMessages s k) k' = getOrderStatusHistory s k'
      \<and> orders (clearOrderMessages s k) = orders s"
    by (simp add: clearOrderMessages_def getOrderMessages_def getOrderStatusHistory_def
        map_of_delete_same)
  show ?thesis
    using clear by (simp add: run_ops_prefix prefix_length_le)
qed

text \<open>
  Claim C7 at a concrete input: two appended messages, then the first order's log is cleared.
\<close>

theorem logs_append_only_witness:
  "''ORD-2024-002'' \<noteq> ''ORD-2024-001''
   \<and> getOrderMessages
        (run_ops started
           [AppendMessage \<lparr>msg_orderId = ''ORD-2024-001'', messageType = ''info'',
                           content = ''first'', metadata = None\<rparr> 1500,
            AppendMessage \<lparr>msg_orderId = ''ORD-2024-002'', messageType = ''warning'',
                           content = ''second'', metadata = None\<rparr> 1600]) ''ORD-2024-002''
     = [\<lparr>msg_orderId = ''ORD-2024-002'', messageType = ''warning'', content = ''second'',
         metadata = None, msg_id = 5, msg_timestamp = 1600\<rparr>]
   \<and> getOrderMessages
        (clearOrderMessages
           (run_ops started
              [AppendMessage \<lparr>msg_orderId = ''ORD-2024-001'', messageType = ''info'',
                              content = ''first'', metadata = None\<rparr> 1500,
               AppendMessage \<lparr>msg_orderId = ''ORD-2024-002'', messageType = ''warning'',
                              content = ''second'', metadata = None\<rparr> 1600])
           ''ORD-2024-001'') ''ORD-2024-002''
     = [\<lparr>msg_orderId = ''ORD-2024-002'', messageType = ''warning'', content = ''second'',
         metadata = None, msg_id = 5, msg_timestamp = 1600\<rparr>]
   \<and> getOrderMessages
        (clearOrderMessages
           (run_ops started
              [AppendMessage \<lparr>msg_orderId = ''ORD-2024-001'', messageType = ''info'',
                              content = ''first'', metadata = None\<rparr> 1500,
               AppendMessage \<lparr>msg_orderId = ''ORD-2024-002'', messageType = ''warning'',
                              content = ''second'', metadata = None\<rparr> 1600])
           ''ORD-2024-001'') ''ORD-2024-001''
     = []"
proof -
  let ?s = "run_ops started
              [AppendMessage \<lparr>msg_orderId = ''ORD-2024-001'', messageType = ''info'',
                              content = ''first'', metadata = None\<rparr> 1500,
               AppendMessage \<lparr>msg_orderId = ''ORD-2024-002'', messageType = ''warning'',
                              content = ''second'', metadata = None\<rparr> 1600]"
  have ne: "''ORD-2024-002'' \<noteq> ''ORD-2024-001''" by simp
  have m: "getOrderMessages ?s ''ORD-2024-002''
     = [\<lparr>msg_orderId = ''ORD-2024-002'', messageType = ''warning'', content = ''second'',
         metadata = None, msg_id = 5, msg_timestamp = 1600\<rparr>]"
    by (simp add: getOrderMessages_def addOrderMessage_def Let_def started_store)
  show ?thesis
    using ne m logs_append_only [of ?s "''ORD-2024-001''" "[]" "''ORD-2024-002''"]
    by simp
qed

lemma length_slice0: "0 \<le> n \<Longrightarrow> length (slice0 xs n) = min (nat n) (length xs)"
  by (simp add: slice0_def min.commute)

lemma prefix_slice0: "prefix (slice0 xs n) xs"
  by (simp add: slice0_def take_is_prefix)

lemma sorted_wrt_slice0: "sorted_wrt P xs \<Longrightarrow> sorted_wrt P (slice0 xs n)"
  by (simp add: slice0_def)

lemma sorted_desc_sort_key:
  "sorted_wrt (\<lambda>a b. updatedAt b \<le> updatedAt a) (sort_key (\<lambda>ord. - updatedAt ord) xs)"
proof -
  have "sorted (map (\<lambda>ord. - updatedAt ord) (sort_key (\<lambda>ord. - updatedAt ord) xs))"
    by (rule sorted_sort_key)
  then show ?thesis by (simp add: sorted_map)
qed

lemma stable_sort_key_updatedAt:
  "filter (\<lambda>ord. updatedAt ord = t) (sort_key (\<lambda>ord. - updatedAt ord) xs)
     = filter (\<lambda>ord. updatedAt ord = t) xs"
  using sort_key_stable [of "\<lambda>ord. - updatedAt ord" "- t" xs] by simp

lemma sort_key_strict_min_first:
  fixes f :: "'a \<Rightarrow> int"
  shows "x \<in> set xs \<Longrightarrow> \<forall>y\<in>set xs. y \<noteq> x \<longrightarrow> f x < f y \<Longrightarrow> \<exists>rest. sort_key f xs = x # rest"
proof (induction xs)
  case Nil
  then show ?case by simp
next
  case (Cons a xs)
  show ?case
  proof (cases "x \<in> set xs")
    case True
    with Cons obtain rest where r: "sort_key f xs = x # rest" by auto
    show ?thesis
    proof (cases "a = x")
      case True
      then show ?thesis using r by simp
    next
      case False
      with Cons.prems have "f x < f a" by simp
      then show ?thesis using r by simp
    qed
  next
    case False
    with Cons.prems have ax: "a = x" by simp
    have "\<forall>y\<in>set (sort_key f xs). f x \<le> f y"
      using Cons.prems False by fastforce
    then have "insort_key f x (sort_key f xs) = x # sort_key f xs"
      by (rule insort_is_Cons)
    then show ?thesis using ax by simp
  qed
qed

lemma snd_set_update:
  "set (map snd (AList.update k v al)) \<subseteq> insert v (set (map snd al))"
  by (induct al) auto

lemma snd_in_update: "v \<in> set (map snd (AList.update k v al))"
  by (induct al) auto

lemma orders_create_update:
  "orders (fst (updateOrder (fst (createOrder s ins t1 t2)) (orderId ins) upd now))
     = AList.update (orderId ins) (merge_updates (snd (createOrder s ins t1 t2)) upd now) (orders s)"
  by (simp add: updateOrder_def createOrder_def Let_def map_of_update_same)

lemma updated_order_first:
  assumes "1 \<le> n" and "\<forall>ord\<in>set (map snd (orders s)). updatedAt ord < now"
  shows "\<exists>rest. getRecentOrders (fst (updateOrder (fst (createOrder s ins t1 t2)) (orderId ins) upd now))
            (Some n) = merge_updates (snd (createOrder s ins t1 t2)) upd now # rest"
proof -
  let ?u = "merge_updates (snd (createOrder s ins t1 t2)) upd now"
  let ?os = "map snd (AList.update (orderId ins) ?u (orders s))"
  have u_now: "updatedAt ?u = now" by (simp add: merge_updates_def)
  have "?u \<in> set ?os" by (rule snd_in_update)
  moreover have "\<forall>y\<in>set ?os. y \<noteq> ?u \<longrightarrow> - updatedAt ?u < - updatedAt y"
  proof (intro ballI impI)
    fix y assume "y \<in> set ?os" and "y \<noteq> ?u"
    then have "y \<in> set (map snd (orders s))" using snd_set_update [of "orderId ins" ?u "orders s"] by auto
    then have "updatedAt y < now" using assms(2) by blast
    then show "- updatedAt ?u < - updatedAt y" using u_now by simp
  qed
  ultimately obtain rest where
    "sort_key (\<lambda>ord. - updatedAt ord) ?os = ?u # rest"
    using sort_key_strict_min_first [of ?u ?os "\<lambda>ord. - updatedAt ord"] by blast
  moreover obtain m where "nat n = Suc m" using assms(1) by (cases "nat n") auto
  ultimately show ?thesis
    using assms(1) by (simp add: getRecentOrders_def orders_create_update slice0_def)
qed

lemma full_listing:
  "getRecentOrders s (Some (int (length (orders s))))
     = sort_key (\<lambda>ord. - updatedAt ord) (map snd (orders s))"
  by (simp add: getRecentOrders_def slice0_def)

lemma getRecentOrders_negative_limit:
  "n < 0 \<Longrightarrow>
     getRecentOrders s (Some n)
       = take (length (orders s) - nat (- n)) (getRecentOrders s (Some (int (length (orders s)))))"
proof -
  assume "n < 0"
  then have "nat (int (length (orders s)) + n) = length (orders s) - nat (- n)" by linarith
  with \<open>n < 0\<close> show ?thesis
    by (simp add: full_listing) (simp add: getRecentOrders_def slice0_def)
qed

text \<open>
  Claim C4, as amended. The listing whose limit is the number of orders is the complete one:
  it holds every order of the store once, sorted by \<open>updatedAt\<close> descending, the orders of
  one and the same timestamp in insertion order. For a limit \<open>n \<ge> 0\<close>,
  \<^verbatim>\<open>getRecentOrders\<close> returns the first \<open>n\<close> orders of the complete listing, all of them
  when the store holds fewer, hence at most \<open>n\<close>. So for every limit the result is sorted by
  \<open>updatedAt\<close> descending with insertion order among equal timestamps. Without a limit the
  default is 10, in the store and in the route. After creating an order and updating it, it
  is the first order returned, provided that \<open>n \<ge> 1\<close> and the update's clock reading is
  strictly later than the \<open>updatedAt\<close> of every order that was in the store.
\<close>

theorem getRecentOrders_sorted_limited:
  "(0 \<le> n \<longrightarrow>
        getRecentOrders s (Some n)
          = take (nat n) (getRecentOrders s (Some (int (length (orders s)))))
      \<and> length (getRecentOrders s (Some n)) = min (nat n) (length (orders s))
      \<and> int (length (getRecentOrders s (Some n))) \<le> n)
   \<and> mset (getRecentOrders s (Some (int (length (orders s))))) = mset (map snd (orders s))
   \<and> sorted_wrt (\<lambda>a b. updatedAt b \<le> updatedAt a)
        (getRecentOrders s (Some (int (length (orders s)))))
   \<and> filter (\<lambda>ord. updatedAt ord = t) (getRecentOrders s (Some (int (length (orders s)))))
        = filter (\<lambda>ord. updatedAt ord = t) (map snd (orders s))
   \<and> sorted_wrt (\<lambda>a b. updatedAt b \<le> updatedAt a) (getRecentOrders s lim)
   \<and> prefix (filter (\<lambda>ord. updatedAt ord = t) (getRecentOrders s lim))
            (filter (\<lambda>ord. updatedAt ord = t) (map snd (orders s)))
   \<and> getRecentOrders s None = getRecentOrders s (Some 10)
   \<and> get_orders s None = (200, orders_json (getRecentOrders s None))
   \<and> (1 \<le> n \<and> (\<forall>ord\<in>set (map snd (orders s)). updatedAt ord < now) \<longrightarrow>
        (\<exists>rest. getRecentOrders
                  (fst (updateOrder (fst (createOrder s ins tc tu)) (orderId ins) upd now)) (Some n)
                = merge_updates (snd (createOrder s ins tc tu)) upd now # rest))"
    (is "(?limit \<longrightarrow> ?first) \<and> ?all \<and> ?sorted \<and> ?stable \<and> ?sorted_any \<and> ?stable_any \<and> ?default
         \<and> ?route \<and> (?later \<longrightarrow> ?front)")
proof -
  have first: "?limit \<longrightarrow> ?first"
  proof
    assume ?limit
    then have "getRecentOrders s (Some n)
          = take (nat n) (getRecentOrders s (Some (int (length (orders s)))))"
      by (simp add: full_listing) (simp add: getRecentOrders_def slice0_def)
    moreover from \<open>?limit\<close> have
      "length (getRecentOrders s (Some n)) = min (nat n) (length (orders s))"
      by (simp add: getRecentOrders_def length_slice0)
    moreover from this \<open>?limit\<close> have "int (length (getRecentOrders s (Some n))) \<le> n"
      by simp
    ultimately show ?first by blast
  qed
  have all: ?all by (simp add: full_listing)
  have srt: ?sorted by (simp add: full_listing sorted_desc_sort_key)
  have stb: ?stable by (simp only: full_listing stable_sort_key_updatedAt)
  have srt_any: ?sorted_any
    by (simp add: getRecentOrders_def Let_def sorted_wrt_slice0 sorted_desc_sort_key)
  have "prefix (filter (\<lambda>ord. updatedAt ord = t) (getRecentOrders s lim))
          (filter (\<lambda>ord. updatedAt ord = t)
             (sort_key (\<lambda>ord. - updatedAt ord) (map snd (orders s))))"
    by (simp add: getRecentOrders_def Let_def filter_mono_prefix prefix_slice0)
  then have stb_any: ?stable_any
    by (simp only: stable_sort_key_updatedAt)
  have dflt: "?default \<and> ?route"
    by (simp add: getRecentOrders_def get_orders_def)
  have front: "?later \<longrightarrow> ?front"
    using updated_order_first [of n s now ins tc tu upd] by blast
  show ?thesis
    using first all srt stb srt_any stb_any dflt front by blast
qed

text \<open>
  Claim C4 at a concrete input: limit 2 on the started store, before and after a new order
  is created at 1500 and updated at 2000.
\<close>

theorem getRecentOrders_sorted_limited_witness:
  "(0::int) \<le> 2 \<and> (1::int) \<le> 2
   \<and> list_all (\<lambda>ord. updatedAt ord < 2000) (map snd (orders started))
   \<and> map orderId (getRecentOrders started (Some (int (length (orders started)))))
       = [''ORD-2024-001'', ''ORD-2024-002'', ''ORD-2024-003'']
   \<and> map orderId (getRecentOrders started (Some 2)) = [''ORD-2024-001'', ''ORD-2024-002'']
   \<and> map orderId
        (getRecentOrders
           (fst (updateOrder (fst (createOrder started test_order 1500 1500)) ''ORD-TEST-1''
                   (status_only (Str ''confirmed'')) 2000))
           (Some 2))
     = [''ORD-TEST-1'', ''ORD-2024-001'']"
proof -
  have b: "\<forall>ord\<in>set (map snd (orders started)). updatedAt ord < 2000"
    by (simp add: started_store)
  have n0: "(0::int) \<le> 2" and n1: "(1::int) \<le> 2" by simp_all
  have ev: "map orderId
        (getRecentOrders
           (fst (updateOrder (fst (createOrder started test_order 1500 1500)) ''ORD-TEST-1''
                   (status_only (Str ''confirmed'')) 2000))
           (Some 2))
     = [''ORD-TEST-1'', ''ORD-2024-001'']"
    by (simp add: getRecentOrders_def slice0_def started_store updateOrder_def createOrder_def
      test_order_def Let_def merge_updates_def spread_def status_only_def)
  have ev2: "map orderId (getRecentOrders started (Some 2)) = [''ORD-2024-001'', ''ORD-2024-002'']"
    by (simp add: getRecentOrders_def slice0_def started_store)
  have ev3: "map orderId (getRecentOrders started (Some (int (length (orders started)))))
       = [''ORD-2024-001'', ''ORD-2024-002'', ''ORD-2024-003'']"
    by (simp add: getRecentOrders_def slice0_def started_store)
  show ?thesis
    using b n0 n1 ev ev2 ev3
      getRecentOrders_sorted_limited [where n = 2 and s = started and lim = "Some 2"
        and t = 1000 and now = 2000 and ins = test_order and tc = 1500 and tu = 1500
        and upd = "status_only (Str ''confirmed'')"]
    by (simp add: list_all_iff)
qed

text \<open>
  Claim C4 as stated fails twice. With limit \<open>-1\<close> the three orders of the started store
  give two results, more than the limit. And an order created and updated at time 1000, the
  \<open>updatedAt\<close> of the three older orders, is listed last, not first.
\<close>

theorem getRecentOrders_counterexample:
  "length (getRecentOrders started (Some (- 1))) = 2
   \<and> map orderId
        (getRecentOrders
           (fst (updateOrder (fst (createOrder started test_order 1000 1000)) ''ORD-TEST-1''
                   (status_only (Str ''confirmed'')) 1000))
           (Some 10))
     = [''ORD-2024-001'', ''ORD-2024-002'', ''ORD-2024-003'', ''ORD-TEST-1'']"
  by (simp add: getRecentOrders_def slice0_def started_store updateOrder_def createOrder_def
      test_order_def Let_def merge_updates_def spread_def status_only_def)

section \<open>Properties of the simulator and the manual trigger\<close>

lemma js_get_own: "map_of table k = Some v \<Longrightarrow> js_get table k = Str v"
  by (simp add: js_get_def)

lemma js_get_inherited:
  "map_of table k = None \<Longrightarrow> k \<in> set object_prototype_names \<Longrightarrow> js_get table k = Inherited k"
  by (simp add: js_get_def)

lemma js_get_missing:
  "map_of table k = None \<Longrightarrow> k \<notin> set object_prototype_names \<Longrightarrow> js_get table k = Undefined"
  by (simp add: js_get_def)

lemma statusProgression_nonempty:
  "map_of statusProgression k = Some nxt \<Longrightarrow> nxt \<noteq> []"
  by (auto simp add: statusProgression_def split: if_splits)

lemma or_null_getRandomDuration: "or_null (getRandomDuration r) = getRandomDuration r"
proof (cases "r < length durations")
  case True
  then have "durations ! r \<in> set durations" by (rule nth_mem)
  then have "durations ! r \<noteq> []" by (auto simp add: durations_def)
  with True show ?thesis by (simp add: or_null_def getRandomDuration_def nth_opt_def)
next
  case False
  then show ?thesis by (simp add: or_null_def getRandomDuration_def nth_opt_def)
qed

lemma updateOrder_existing:
  "getOrder s oid = Some cur \<Longrightarrow>
     updateOrder s oid upd now =
       (s\<lparr>orders := AList.update oid (merge_updates cur upd now) (orders s)\<rparr>,
        Some (merge_updates cur upd now))"
  by (simp add: updateOrder_def getOrder_def Let_def)

lemma updateOrder_absent:
  "getOrder s oid = None \<Longrightarrow> updateOrder s oid upd now = (s, None)"
  by (simp add: updateOrder_def getOrder_def)

lemma merge_status_only:
  "merge_updates cur (status_only st) now = cur\<lparr>status := st, updatedAt := now\<rparr>"
  by (simp add: merge_updates_def status_only_def spread_def)

lemma broadcast_function:
  "wss svc = Some BroadcastFunction \<Longrightarrow> broadcastToClients svc msg = Inl TypeError"
  by (simp add: broadcastToClients_def)

lemma broadcast_returns:
  "wss svc \<noteq> Some BroadcastFunction \<Longrightarrow> \<exists>svc'. broadcastToClients svc msg = Inr svc'"
  by (simp add: broadcastToClients_def split: option.splits wss_value.splits)

lemma triggerOrderUpdate_existing:
  assumes "getOrder (storage sys) oid = Some cur"
  shows "triggerOrderUpdate sys oid newStatus env =
     (\<lparr>storage = (storage sys)
         \<lparr>orders := AList.update oid (cur\<lparr>status := newStatus, updatedAt := t_update env\<rparr>)
                      (orders (storage sys)),
          messages := AList.update oid
             (getOrderMessages (storage sys) oid @
              [\<lparr>msg_orderId = oid, messageType = STATUS_UPDATE,
                content = ''Order status manually updated to '' @ to_string newStatus,
                metadata = Some [(''manualUpdate'', True)],
                msg_id = currentId (storage sys) + 1, msg_timestamp = t_message env\<rparr>])
             (messages (storage sys)),
          statusHistory := AList.update oid
             (getOrderStatusHistory (storage sys) oid @
              [\<lparr>hist_orderId = oid, hist_status = newStatus,
                title = getStatusTitle newStatus,
                description = getStatusDescription newStatus,
                operator = ''Manual'',
                duration = getRandomDuration (rnd_duration env),
                hist_id = currentId (storage sys), hist_timestamp = t_history env\<rparr>])
             (statusHistory (storage sys)),
          currentId := currentId (storage sys) + 2\<rparr>,
       kafka = (case broadcastToClients (kafka sys)
                       (order_update (cur\<lparr>status := newStatus, updatedAt := t_update env\<rparr>)) of
                  Inr svc \<Rightarrow> svc
                | Inl e \<Rightarrow> kafka sys)\<rparr>,
      (case broadcastToClients (kafka sys)
              (order_update (cur\<lparr>status := newStatus, updatedAt := t_update env\<rparr>)) of
         Inr svc \<Rightarrow> None
       | Inl e \<Rightarrow> Some e))"
  using assms
  by (simp add: triggerOrderUpdate_def updateOrder_existing merge_status_only
      addOrderStatusHistory_def addOrderMessage_def Let_def getOrderMessages_def
      getOrderStatusHistory_def or_null_getRandomDuration split: sum.splits)

lemma simulateOrderUpdate_existing:
  assumes "nth_opt sampleOrders (rnd_order env) = Some oid"
    and "getOrder (storage sys) oid = Some cur"
    and "js_get statusProgression (to_string (status cur)) = newStatus"
    and "truthy newStatus"
  shows "simulateOrderUpdate sys env =
     \<lparr>storage = (storage sys)
         \<lparr>orders := AList.update oid (cur\<lparr>status := newStatus, updatedAt := t_update env\<rparr>)
                      (orders (storage sys)),
          messages := AList.update oid
             (getOrderMessages (storage sys) oid @
              [\<lparr>msg_orderId = oid, messageType = STATUS_UPDATE,
                content = ''Order status updated to '' @ to_string newStatus,
                metadata = Some [(''simulatedUpdate'', True)],
                msg_id = currentId (storage sys) + 1, msg_timestamp = t_message env\<rparr>])
             (messages (storage sys)),
          statusHistory := AList.update oid
             (getOrderStatusHistory (storage sys) oid @
              [\<lparr>hist_orderId = oid, hist_status = newStatus,
                title = getStatusTitle newStatus,
                description = getStatusDescription newStatus,
                operator = ''System'',
                duration = getRandomDuration (rnd_duration env),
                hist_id = currentId (storage sys), hist_timestamp = t_history env\<rparr>])
             (statusHistory (storage sys)),
          currentId := currentId (storage sys) + 2\<rparr>,
      kafka = (case broadcastToClients (kafka sys)
                      (order_update (cur\<lparr>status := newStatus, updatedAt := t_update env\<rparr>)) of
                 Inr svc \<Rightarrow> svc
               | Inl e \<Rightarrow> kafka sys)\<rparr>"
  using assms
  by (simp add: simulateOrderUpdate_def updateOrder_existing merge_status_only
      addOrderStatusHistory_def addOrderMessage_def Let_def getOrderMessages_def
      getOrderStatusHistory_def or_null_getRandomDuration split: sum.splits)

lemma simulateOrderUpdate_falsy:
  assumes "nth_opt sampleOrders (rnd_order env) = Some oid"
    and "getOrder (storage sys) oid = Some cur"
    and "\<not> truthy (js_get statusProgression (to_string (status cur)))"
  shows "simulateOrderUpdate sys env = sys"
  using assms by (simp add: simulateOrderUpdate_def)

lemma simulateOrderUpdate_logs:
  assumes "nth_opt sampleOrders (rnd_order env) = Some oid"
    and "getOrder (storage sys) oid = Some cur"
    and "js_get statusProgression (to_string (status cur)) = newStatus"
    and "truthy newStatus"
  shows "getOrder (storage (simulateOrderUpdate sys env)) oid
          = Some (cur\<lparr>status := newStatus, updatedAt := t_update env\<rparr>)
      \<and> getOrderStatusHistory (storage (simulateOrderUpdate sys env)) oid
          = getOrderStatusHistory (storage sys) oid @
            [\<lparr>hist_orderId = oid, hist_status = newStatus,
              title = getStatusTitle newStatus,
              description = getStatusDescription newStatus,
              operator = ''System'',
              duration = getRandomDuration (rnd_duration env),
              hist_id = currentId (storage sys), hist_timestamp = t_history env\<rparr>]
      \<and> getOrderMessages (storage (simulateOrderUpdate sys env)) oid
          = getOrderMessages (storage sys) oid @
            [\<lparr>msg_orderId = oid, messageType = ''status_update'',
              content = ''Order status updated to '' @ to_string newStatus,
              metadata = Some [(''simulatedUpdate'', True)],
              msg_id = currentId (storage sys) + 1, msg_timestamp = t_message env\<rparr>]
      \<and> kafka (simulateOrderUpdate sys env)
          = (case broadcastToClients (kafka sys)
                    (order_update (cur\<lparr>status := newStatus, updatedAt := t_update env\<rparr>)) of
               Inr svc \<Rightarrow> svc
             | Inl e \<Rightarrow> kafka sys)"
  by (simp add: simulateOrderUpdate_existing [OF assms] getOrder_def map_of_update_same
      getOrderMessages_def getOrderStatusHistory_def STATUS_UPDATE_def)

lemma status_tables:
  "map_of statusProgression ''pending'' = Some ''confirmed''"
  "map_of statusProgression ''confirmed'' = Some ''processing''"
  "map_of statusProgression ''processing'' = Some ''shipped''"
  "map_of statusProgression ''shipped'' = Some ''delivered''"
  "map_of statusProgression ''delivered'' = None"
  "map_of statusProgression ''cancelled'' = None"
  "getStatusTitle (Str ''confirmed'') = Str ''Order Confirmed''"
  "getStatusTitle (Str ''processing'') = Str ''Processing''"
  "getStatusTitle (Str ''shipped'') = Str ''Shipped''"
  "getStatusTitle (Str ''delivered'') = Str ''Delivered''"
  "getStatusDescription (Str ''confirmed'')
     = Str ''Your order has been confirmed and is being prepared for processing.''"
  "getStatusDescription (Str ''processing'')
     = Str ''Items are being prepared and packaged for shipment.''"
  "getStatusDescription (Str ''shipped'') = Str ''Your order has been shipped and is on its way.''"
  "getStatusDescription (Str ''delivered'') = Str ''Your order has been delivered successfully.''"
  by (simp_all add: statusProgression_def getStatusTitle_def getStatusDescription_def
      lookup_or_def js_get_def titles_def descriptions_def PENDING_def CONFIRMED_def
      PROCESSING_def SHIPPED_def DELIVERED_def CANCELLED_def)

lemma demo_target: "nth_opt sampleOrders (rnd_order demo_env) = Some ''ORD-2024-001''"
  by (simp add: nth_opt_def sampleOrders_def demo_env_def)

lemma demo_order_1:
  "getOrder (storage demo_system) ''ORD-2024-001''
     = Some \<lparr>orderId = ''ORD-2024-001'', customerId = ''CUST-123'', customerName = ''John Doe'',
        totalAmount = ''89.99'', itemCount = 3, status = Str ''pending'',
        id_order = 1, createdAt = 1000, updatedAt = 1000\<rparr>"
  by (simp add: demo_system_def getOrder_def started_store)

lemma sse_order_1:
  "getOrder (storage sse_system) ''ORD-2024-001''
     = Some \<lparr>orderId = ''ORD-2024-001'', customerId = ''CUST-123'', customerName = ''John Doe'',
        totalAmount = ''89.99'', itemCount = 3, status = Str ''pending'',
        id_order = 1, createdAt = 1000, updatedAt = 1000\<rparr>"
  by (simp add: sse_system_def getOrder_def started_store)

lemma demo_logs:
  "getOrderStatusHistory (storage demo_system) k = []"
  "getOrderMessages (storage demo_system) k = []"
  "currentId (storage demo_system) = 4"
  by (simp_all add: demo_system_def getOrderStatusHistory_def getOrderMessages_def started_store)

lemma sse_logs:
  "getOrderStatusHistory (storage sse_system) k = []"
  "getOrderMessages (storage sse_system) k = []"
  "currentId (storage sse_system) = 4"
  by (simp_all add: sse_system_def getOrderStatusHistory_def getOrderMessages_def started_store)

lemma demo_wss:
  "wss (kafka demo_system) \<noteq> Some BroadcastFunction"
  "wss (kafka sse_system) = Some BroadcastFunction"
  by (simp_all add: demo_system_def sse_system_def initialize_def)

lemma demo_broadcast:
  "broadcastToClients (kafka demo_system) msg =
     Inr \<lparr>wss = Some (WebSocketServer [\<lparr>readyState = 1, sent = [msg]\<rparr>,
                                         \<lparr>readyState = 3, sent = []\<rparr>]),
          isConnected = True\<rparr>"
  by (simp add: broadcastToClients_def demo_system_def initialize_def OPEN_def)

lemma demo_duration: "getRandomDuration (rnd_duration demo_env) = Some ''15m''"
  by (simp add: getRandomDuration_def nth_opt_def durations_def demo_env_def)

lemma demo_times:
  "t_update demo_env = 2000" "t_history demo_env = 2001" "t_message demo_env = 2002"
  by (simp_all add: demo_env_def)

text \<open>
  Claim C2, with the case the code misses. Let a tick target an order that is in the store.
  When the order's status has a successor in the chain pending, confirmed, processing,
  shipped, delivered, the tick sets the status to the successor, appends one history entry
  with operator System whose title and description are those of the tables for the new
  status, appends one message of type status_update, and broadcasts the updated order (an
  error of the broadcast is caught and leaves the clients as they were). When
  the status has no successor (delivered, cancelled, or any other status outside the table)
  and is not the name of a member that objects inherit, the tick changes nothing. When it is
  such a name, the lookup finds the inherited member, and the tick stores that member as the
  status and appends a history entry and a message all the same.
\<close>

theorem simulateOrderUpdate_tick:
  assumes "nth_opt sampleOrders (rnd_order env) = Some oid"
    and "getOrder (storage sys) oid = Some cur"
  shows "(map_of statusProgression (to_string (status cur)) = Some nxt \<longrightarrow>
        getOrder (storage (simulateOrderUpdate sys env)) oid
          = Some (cur\<lparr>status := Str nxt, updatedAt := t_update env\<rparr>)
      \<and> getOrderStatusHistory (storage (simulateOrderUpdate sys env)) oid
          = getOrderStatusHistory (storage sys) oid @
            [\<lparr>hist_orderId = oid, hist_status = Str nxt,
              title = getStatusTitle (Str nxt),
              description = getStatusDescription (Str nxt),
              operator = ''System'',
              duration = getRandomDuration (rnd_duration env),
              hist_id = currentId (storage sys), hist_timestamp = t_history env\<rparr>]
      \<and> getOrderMessages (storage (simulateOrderUpdate sys env)) oid
          = getOrderMessages (storage sys) oid @
            [\<lparr>msg_orderId = oid, messageType = ''status_update'',
              content = ''Order status updated to '' @ nxt,
              metadata = Some [(''simulatedUpdate'', True)],
              msg_id = currentId (storage sys) + 1, msg_timestamp = t_message env\<rparr>]
      \<and> kafka (simulateOrderUpdate sys env)
          = (case broadcastToClients (kafka sys)
                    (order_update (cur\<lparr>status := Str nxt, updatedAt := t_update env\<rparr>)) of
               Inr svc \<Rightarrow> svc
             | Inl e \<Rightarrow> kafka sys))
    \<and> (map_of statusProgression (to_string (status cur)) = None
        \<and> to_string (status cur) \<notin> set object_prototype_names \<longrightarrow>
          simulateOrderUpdate sys env = sys)
    \<and> (to_string (status cur) \<in> set object_prototype_names \<longrightarrow>
        getOrder (storage (simulateOrderUpdate sys env)) oid
          = Some (cur\<lparr>status := Inherited (to_string (status cur)), updatedAt := t_update env\<rparr>)
      \<and> length (getOrderStatusHistory (storage (simulateOrderUpdate sys env)) oid)
          = length (getOrderStatusHistory (storage sys) oid) + 1
      \<and> length (getOrderMessages (storage (simulateOrderUpdate sys env)) oid)
          = length (getOrderMessages (storage sys) oid) + 1)
    \<and> map_of statusProgression ''pending'' = Some ''confirmed''
    \<and> map_of statusProgression ''confirmed'' = Some ''processing''
    \<and> map_of statusProgression ''processing'' = Some ''shipped''
    \<and> map_of statusProgression ''shipped'' = Some ''delivered''
    \<and> map_of statusProgression ''delivered'' = None
    \<and> map_of statusProgression ''cancelled'' = None
    \<and> getStatusTitle (Str ''confirmed'') = Str ''Order Confirmed''
    \<and> getStatusTitle (Str ''processing'') = Str ''Processing''
    \<and> getStatusTitle (Str ''shipped'') = Str ''Shipped''
    \<and> getStatusTitle (Str ''delivered'') = Str ''Delivered''"
    (is "(?successor \<longrightarrow> ?advanced) \<and> (?none \<longrightarrow> ?unchanged) \<and> (?name \<longrightarrow> ?overwritten) \<and> ?tables")
proof -
  have adv: "?successor \<longrightarrow> ?advanced"
  proof
    assume n: ?successor
    have t: "truthy (Str nxt)" using statusProgression_nonempty [OF n] by simp
    show ?advanced
      using simulateOrderUpdate_logs [OF assms js_get_own [OF n] t] by simp
  qed
  have noop: "?none \<longrightarrow> ?unchanged"
  proof
    assume ?none
    then have "js_get statusProgression (to_string (status cur)) = Undefined"
      by (simp add: js_get_missing)
    then show ?unchanged
      using simulateOrderUpdate_falsy [OF assms] by simp
  qed
  have inh: "?name \<longrightarrow> ?overwritten"
  proof
    assume i: ?name
    then have "map_of statusProgression (to_string (status cur)) = None"
      by (auto simp add: object_prototype_names_def statusProgression_def)
    then have g: "js_get statusProgression (to_string (status cur))
                    = Inherited (to_string (status cur))"
      using i by (rule js_get_inherited)
    have t: "truthy (Inherited (to_string (status cur)))" by simp
    show ?overwritten
      using simulateOrderUpdate_logs [OF assms g t] by simp
  qed
  have tab: ?tables by (simp add: status_tables)
  show ?thesis
    using adv noop inh tab by blast
qed

text \<open>
  Claim C2 at concrete inputs: a tick on the pending first default order, a tick after that
  order was cancelled, and a tick after its status was set to the string constructor.
\<close>

theorem simulateOrderUpdate_tick_witness:
  "nth_opt sampleOrders (rnd_order demo_env) = Some ''ORD-2024-001''
   \<and> map_option status (getOrder (storage demo_system) ''ORD-2024-001'') = Some (Str ''pending'')
   \<and> getOrder (storage (simulateOrderUpdate demo_system demo_env)) ''ORD-2024-001''
       = Some \<lparr>orderId = ''ORD-2024-001'', customerId = ''CUST-123'', customerName = ''John Doe'',
          totalAmount = ''89.99'', itemCount = 3, status = Str ''confirmed'',
          id_order = 1, createdAt = 1000, updatedAt = 2000\<rparr>
   \<and> getOrderStatusHistory (storage (simulateOrderUpdate demo_system demo_env)) ''ORD-2024-001''
       = [\<lparr>hist_orderId = ''ORD-2024-001'', hist_status = Str ''confirmed'',
           title = Str ''Order Confirmed'',
           description = Str ''Your order has been confirmed and is being prepared for processing.'',
           operator = ''System'', duration = Some ''15m'', hist_id = 4, hist_timestamp = 2001\<rparr>]
   \<and> getOrderMessages (storage (simulateOrderUpdate demo_system demo_env)) ''ORD-2024-001''
       = [\<lparr>msg_orderId = ''ORD-2024-001'', messageType = ''status_update'',
           content = ''Order status updated to confirmed'',
           metadata = Some [(''simulatedUpdate'', True)], msg_id = 5, msg_timestamp = 2002\<rparr>]
   \<and> map_option status
         (getOrder (storage (fst (triggerOrderUpdate demo_system ''ORD-2024-001'' (Str ''cancelled'')
                               demo_env))) ''ORD-2024-001'')
       = Some (Str ''cancelled'')
   \<and> simulateOrderUpdate
         (fst (triggerOrderUpdate demo_system ''ORD-2024-001'' (Str ''cancelled'') demo_env))
         demo_env
       = fst (triggerOrderUpdate demo_system ''ORD-2024-001'' (Str ''cancelled'') demo_env)
   \<and> map_option status
         (getOrder (storage (fst (triggerOrderUpdate demo_system ''ORD-2024-001'' (Str ''constructor'')
                               demo_env))) ''ORD-2024-001'')
       = Some (Str ''constructor'')
   \<and> map_option status
         (getOrder
            (storage (simulateOrderUpdate
                        (fst (triggerOrderUpdate demo_system ''ORD-2024-001''
                                (Str ''constructor'') demo_env)) demo_env)) ''ORD-2024-001'')
       = Some (Inherited ''constructor'')
   \<and> length (getOrderStatusHistory
                (storage (simulateOrderUpdate
                            (fst (triggerOrderUpdate demo_system ''ORD-2024-001''
                                    (Str ''constructor'') demo_env)) demo_env)) ''ORD-2024-001'')
       = 2"
proof -
  let ?cur = "\<lparr>orderId = ''ORD-2024-001'', customerId = ''CUST-123'', customerName = ''John Doe'',
        totalAmount = ''89.99'', itemCount = 3, status = Str ''pending'',
        id_order = 1, createdAt = 1000, updatedAt = 1000\<rparr>"
  let ?cancelled =
    "fst (triggerOrderUpdate demo_system ''ORD-2024-001'' (Str ''cancelled'') demo_env)"
  let ?odd = "fst (triggerOrderUpdate demo_system ''ORD-2024-001'' (Str ''constructor'') demo_env)"
  have n: "map_of statusProgression (to_string (status ?cur)) = Some ''confirmed''"
    by (simp add: status_tables)
  have c: "getOrder (storage ?cancelled) ''ORD-2024-001''
      = Some (?cur\<lparr>status := Str ''cancelled'', updatedAt := t_update demo_env\<rparr>)"
    by (simp add: triggerOrderUpdate_existing [OF demo_order_1] getOrder_def map_of_update_same)
  have z: "map_of statusProgression
             (to_string (status (?cur\<lparr>status := Str ''cancelled'', updatedAt := t_update demo_env\<rparr>)))
           = None
         \<and> to_string (status (?cur\<lparr>status := Str ''cancelled'', updatedAt := t_update demo_env\<rparr>))
             \<notin> set object_prototype_names"
    by (simp add: status_tables object_prototype_names_def)
  have d: "getOrder (storage ?odd) ''ORD-2024-001''
      = Some (?cur\<lparr>status := Str ''constructor'', updatedAt := t_update demo_env\<rparr>)"
    by (simp add: triggerOrderUpdate_existing [OF demo_order_1] getOrder_def map_of_update_same)
  have i: "to_string (status (?cur\<lparr>status := Str ''constructor'', updatedAt := t_update demo_env\<rparr>))
             \<in> set object_prototype_names"
    by (simp add: object_prototype_names_def)
  have h: "length (getOrderStatusHistory (storage ?odd) ''ORD-2024-001'') = 1"
    by (simp add: triggerOrderUpdate_existing [OF demo_order_1] getOrderStatusHistory_def
        map_of_update_same demo_logs [unfolded getOrderStatusHistory_def])
  show ?thesis
    using n c z d i h demo_order_1
      simulateOrderUpdate_tick [OF demo_target demo_order_1, of "''confirmed''"]
      simulateOrderUpdate_tick [OF demo_target c, of "''confirmed''"]
      simulateOrderUpdate_tick [OF demo_target d, of "''confirmed''"]
    by (simp add: demo_target demo_logs demo_duration status_tables demo_times)
qed

lemma tick_on_constructor:
  "map_option status
     (getOrder
        (storage (simulateOrderUpdate
                    (fst (triggerOrderUpdate demo_system ''ORD-2024-001'' (Str ''constructor'')
                            demo_env)) demo_env)) ''ORD-2024-001'')
   = Some (Inherited ''constructor'')"
proof -
  let ?cur = "\<lparr>orderId = ''ORD-2024-001'', customerId = ''CUST-123'', customerName = ''John Doe'',
        totalAmount = ''89.99'', itemCount = 3, status = Str ''constructor'',
        id_order = 1, createdAt = 1000, updatedAt = t_update demo_env\<rparr>"
  let ?odd = "fst (triggerOrderUpdate demo_system ''ORD-2024-001'' (Str ''constructor'') demo_env)"
  have d: "getOrder (storage ?odd) ''ORD-2024-001'' = Some ?cur"
    by (simp add: triggerOrderUpdate_existing [OF demo_order_1] getOrder_def map_of_update_same)
  have g: "js_get statusProgression (to_string (status ?cur)) = Inherited ''constructor''"
    by (simp add: js_get_def statusProgression_def object_prototype_names_def)
  have t: "truthy (Inherited ''constructor'')" by simp
  show ?thesis
    using simulateOrderUpdate_logs [OF demo_target d g t] by simp
qed

lemma simulate_chain_constrained:
  assumes "getOrder (storage sys) oid = Some cur"
    and "to_string (status cur) \<notin> set object_prototype_names"
  shows "case getOrder (storage (simulateOrderUpdate sys env)) oid of
           None \<Rightarrow> False
         | Some ord \<Rightarrow> status ord = status cur
              \<or> map_option Str (map_of statusProgression (to_string (status cur)))
                  = Some (status ord)"
proof (cases "nth_opt sampleOrders (rnd_order env)")
  case None
  then show ?thesis using assms by (simp add: simulateOrderUpdate_def)
next
  case (Some rid)
  note rid = this
  show ?thesis
  proof (cases "getOrder (storage sys) rid")
    case None
    then show ?thesis using assms rid by (simp add: simulateOrderUpdate_def)
  next
    case (Some c)
    note c = this
    show ?thesis
    proof (cases "truthy (js_get statusProgression (to_string (status c)))")
      case False
      then show ?thesis using assms simulateOrderUpdate_falsy [OF rid c] by simp
    next
      case True
      have eq: "getOrder (storage (simulateOrderUpdate sys env)) oid =
          (if oid = rid
           then Some (c\<lparr>status := js_get statusProgression (to_string (status c)),
                        updatedAt := t_update env\<rparr>)
           else Some cur)"
        using assms
        by (simp add: simulateOrderUpdate_existing [OF rid c refl True]
            getOrder_def map_of_update_same map_of_update_other)
      show ?thesis
      proof (cases "oid = rid")
        case same: True
        with assms c have cc: "c = cur" by simp
        have "map_option Str (map_of statusProgression (to_string (status cur)))
                = Some (js_get statusProgression (to_string (status cur)))"
          using True assms(2) cc
          by (cases "map_of statusProgression (to_string (status cur))")
             (simp_all add: js_get_def)
        with same cc eq show ?thesis by simp
      next
        case False
        with eq show ?thesis by simp
      qed
    qed
  qed
qed

text \<open>
  Claim C3, with the case the code misses. For an order that exists and any target status,
  the manual trigger sets the status to the target, whatever the current status is, and
  appends one history entry with operator Manual and one message. With a WebSocket server
  (or nothing) stored as \<^verbatim>\<open>wss\<close> the call then broadcasts the updated order and returns,
  and the routes answer 200 with a success marker (the one that checks the status for a
  non-empty status); with the broadcast function stored as \<^verbatim>\<open>wss\<close> the broadcast throws
  after the store has been written, and the route without the check answers 500. A simulator tick, in contrast, leaves the status of an order as it
  is or moves it to its successor in the chain, provided the status is not the name of a
  member that objects inherit; for the status \<^verbatim>\<open>constructor\<close> the tick stores the
  inherited member, which is no successor in the chain.
\<close>

theorem triggerOrderUpdate_manual:
  assumes "getOrder (storage sys) oid = Some cur"
  shows "getOrder (storage (fst (triggerOrderUpdate sys oid newStatus env))) oid
          = Some (cur\<lparr>status := newStatus, updatedAt := t_update env\<rparr>)
      \<and> getOrderStatusHistory (storage (fst (triggerOrderUpdate sys oid newStatus env))) oid
          = getOrderStatusHistory (storage sys) oid @
            [\<lparr>hist_orderId = oid, hist_status = newStatus,
              title = getStatusTitle newStatus,
              description = getStatusDescription newStatus,
              operator = ''Manual'',
              duration = getRandomDuration (rnd_duration env),
              hist_id = currentId (storage sys), hist_timestamp = t_history env\<rparr>]
      \<and> getOrderMessages (storage (fst (triggerOrderUpdate sys oid newStatus env))) oid
          = getOrderMessages (storage sys) oid @
            [\<lparr>msg_orderId = oid, messageType = ''status_update'',
              content = ''Order status manually updated to '' @ to_string newStatus,
              metadata = Some [(''manualUpdate'', True)],
              msg_id = currentId (storage sys) + 1, msg_timestamp = t_message env\<rparr>]
      \<and> (wss (kafka sys) \<noteq> Some BroadcastFunction \<longrightarrow>
            snd (triggerOrderUpdate sys oid newStatus env) = None
          \<and> broadcastToClients (kafka sys)
                (order_update (cur\<lparr>status := newStatus, updatedAt := t_update env\<rparr>))
              = Inr (kafka (fst (triggerOrderUpdate sys oid newStatus env)))
          \<and> (truthy newStatus \<longrightarrow>
                trigger_update_ws sys oid newStatus env
                  = (fst (triggerOrderUpdate sys oid newStatus env),
                     (200, success_json
                             (''Order '' @ oid @ '' updated to '' @ to_string newStatus))))
          \<and> trigger_update_sse sys oid newStatus env
              = (fst (triggerOrderUpdate sys oid newStatus env),
                 (200, success_json ''Order update triggered'')))
      \<and> (wss (kafka sys) = Some BroadcastFunction \<longrightarrow>
            snd (triggerOrderUpdate sys oid newStatus env) = Some TypeError
          \<and> kafka (fst (triggerOrderUpdate sys oid newStatus env)) = kafka sys
          \<and> trigger_update_sse sys oid newStatus env
              = (fst (triggerOrderUpdate sys oid newStatus env),
                 (500, error_json ''Failed to trigger update'')))
      \<and> (to_string (status cur) \<notin> set object_prototype_names \<longrightarrow>
            (case getOrder (storage (simulateOrderUpdate sys env')) oid of
               None \<Rightarrow> False
             | Some ord \<Rightarrow> status ord = status cur
                  \<or> map_option Str (map_of statusProgression (to_string (status cur)))
                      = Some (status ord)))
      \<and> map_option status
            (getOrder
               (storage (simulateOrderUpdate
                           (fst (triggerOrderUpdate demo_system ''ORD-2024-001''
                                   (Str ''constructor'') demo_env)) demo_env)) ''ORD-2024-001'')
          = Some (Inherited ''constructor'')"
    (is "?order \<and> ?history \<and> ?messages \<and> (?server \<longrightarrow> ?returns) \<and> (?callback \<longrightarrow> ?throws)
         \<and> (?plain \<longrightarrow> ?chain) \<and> ?slip")
proof -
  note ex = triggerOrderUpdate_existing [OF assms, of newStatus env]
  have store: "?order \<and> ?history \<and> ?messages"
    by (simp add: ex getOrder_def map_of_update_same getOrderMessages_def
        getOrderStatusHistory_def STATUS_UPDATE_def)
  have ret: "?server \<longrightarrow> ?returns"
  proof
    assume ?server
    then obtain svc where
      "broadcastToClients (kafka sys)
         (order_update (cur\<lparr>status := newStatus, updatedAt := t_update env\<rparr>)) = Inr svc"
      using broadcast_returns by blast
    then show ?returns
      by (simp add: ex trigger_update_ws_def trigger_update_sse_def)
  qed
  have thr: "?callback \<longrightarrow> ?throws"
  proof
    assume ?callback
    then have
      "broadcastToClients (kafka sys)
         (order_update (cur\<lparr>status := newStatus, updatedAt := t_update env\<rparr>)) = Inl TypeError"
      by (rule broadcast_function)
    then show ?throws by (simp add: ex trigger_update_sse_def)
  qed
  have chain: "?plain \<longrightarrow> ?chain"
    using simulate_chain_constrained [OF assms, of env'] by blast
  have slip: ?slip by (rule tick_on_constructor)
  show ?thesis
    using store ret thr chain slip by blast
qed

text \<open>
  Claim C3 at concrete inputs: the pending first default order is set to delivered, under
  the WebSocket route table and under a server-sent-event route table, and a tick on the
  pending order moves it to confirmed.
\<close>

theorem triggerOrderUpdate_manual_witness:
  "map_option status (getOrder (storage demo_system) ''ORD-2024-001'') = Some (Str ''pending'')
   \<and> map_option status (getOrder (storage sse_system) ''ORD-2024-001'') = Some (Str ''pending'')
   \<and> wss (kafka demo_system) \<noteq> Some BroadcastFunction
   \<and> wss (kafka sse_system) = Some BroadcastFunction
   \<and> truthy (Str ''delivered'')
   \<and> ''pending'' \<notin> set object_prototype_names
   \<and> getOrder (storage (fst (triggerOrderUpdate demo_system ''ORD-2024-001'' (Str ''delivered'')
                                demo_env))) ''ORD-2024-001''
       = Some \<lparr>orderId = ''ORD-2024-001'', customerId = ''CUST-123'', customerName = ''John Doe'',
          totalAmount = ''89.99'', itemCount = 3, status = Str ''delivered'',
          id_order = 1, createdAt = 1000, updatedAt = 2000\<rparr>
   \<and> getOrderStatusHistory
         (storage (fst (triggerOrderUpdate demo_system ''ORD-2024-001'' (Str ''delivered'')
                          demo_env)))
         ''ORD-2024-001''
       = [\<lparr>hist_orderId = ''ORD-2024-001'', hist_status = Str ''delivered'',
           title = Str ''Delivered'',
           description = Str ''Your order has been delivered successfully.'',
           operator = ''Manual'', duration = Some ''15m'', hist_id = 4, hist_timestamp = 2001\<rparr>]
   \<and> snd (triggerOrderUpdate demo_system ''ORD-2024-001'' (Str ''delivered'') demo_env) = None
   \<and> snd (trigger_update_ws demo_system ''ORD-2024-001'' (Str ''delivered'') demo_env)
       = (200, success_json ''Order ORD-2024-001 updated to delivered'')
   \<and> map_option status
         (getOrder (storage (fst (triggerOrderUpdate sse_system ''ORD-2024-001''
                                    (Str ''delivered'') demo_env))) ''ORD-2024-001'')
       = Some (Str ''delivered'')
   \<and> snd (triggerOrderUpdate sse_system ''ORD-2024-001'' (Str ''delivered'') demo_env)
       = Some TypeError
   \<and> snd (trigger_update_sse sse_system ''ORD-2024-001'' (Str ''delivered'') demo_env)
       = (500, error_json ''Failed to trigger update'')
   \<and> map_option status
         (getOrder (storage (simulateOrderUpdate demo_system demo_env)) ''ORD-2024-001'')
       = Some (Str ''confirmed'')"
proof -
  have t: "truthy (Str ''delivered'')" by simp
  have p: "''pending'' \<notin> set object_prototype_names"
    by (simp add: object_prototype_names_def)
  have tick: "map_option status
         (getOrder (storage (simulateOrderUpdate demo_system demo_env)) ''ORD-2024-001'')
       = Some (Str ''confirmed'')"
    using simulateOrderUpdate_logs [OF demo_target demo_order_1 js_get_own, of "''confirmed''"]
    by (simp add: status_tables)
  show ?thesis
    using t p tick demo_order_1 sse_order_1 demo_wss
      triggerOrderUpdate_manual [OF demo_order_1, of "Str ''delivered''" demo_env demo_env]
      triggerOrderUpdate_manual [OF sse_order_1, of "Str ''delivered''" demo_env demo_env]
    by (simp add: demo_logs sse_logs demo_duration status_tables demo_times)
qed

text \<open>
  Claim C10. For an \<open>orderId\<close> that is absent, \<^verbatim>\<open>triggerOrderUpdate\<close> returns, throwing
  nothing, and leaves the system as it was: no order, history entry or message is added and
  nothing is sent to a client. The route still answers 200 with a success marker: for any
  body in the versions without a status check, and for a non-empty status in the version
  with the check.
\<close>

theorem triggerOrderUpdate_absent:
  assumes "getOrder (storage sys) oid = None"
  shows "triggerOrderUpdate sys oid st env = (sys, None)
      \<and> trigger_update_sse sys oid st env = (sys, (200, success_json ''Order update triggered''))
      \<and> (truthy st \<longrightarrow>
           trigger_update_ws sys oid st env
             = (sys, (200, success_json (''Order '' @ oid @ '' updated to '' @ to_string st))))"
proof -
  have "triggerOrderUpdate sys oid st env = (sys, None)"
    using assms by (simp add: triggerOrderUpdate_def updateOrder_absent)
  then show ?thesis
    by (simp add: trigger_update_sse_def trigger_update_ws_def)
qed

text \<open>
  Claim C10 at concrete inputs: a trigger for an order that does not exist, under the
  WebSocket route table and under a server-sent-event route table.
\<close>

theorem triggerOrderUpdate_absent_witness:
  "getOrder (storage demo_system) ''DOES-NOT-EXIST'' = None
   \<and> getOrder (storage sse_system) ''DOES-NOT-EXIST'' = None
   \<and> truthy (Str ''shipped'')
   \<and> triggerOrderUpdate demo_system ''DOES-NOT-EXIST'' (Str ''shipped'') demo_env
       = (demo_system, None)
   \<and> trigger_update_sse demo_system ''DOES-NOT-EXIST'' Undefined demo_env
       = (demo_system, (200, success_json ''Order update triggered''))
   \<and> trigger_update_sse sse_system ''DOES-NOT-EXIST'' Undefined demo_env
       = (sse_system, (200, success_json ''Order update triggered''))
   \<and> trigger_update_ws demo_system ''DOES-NOT-EXIST'' (Str ''shipped'') demo_env
       = (demo_system, (200, success_json ''Order DOES-NOT-EXIST updated to shipped''))"
proof -
  have a: "getOrder (storage demo_system) ''DOES-NOT-EXIST'' = None"
    by (simp add: demo_system_def getOrder_def started_store)
  have a': "getOrder (storage sse_system) ''DOES-NOT-EXIST'' = None"
    by (simp add: sse_system_def getOrder_def started_store)
  have t: "truthy (Str ''shipped'')" by simp
  show ?thesis
    using a a' t
      triggerOrderUpdate_absent [OF a, of "Str ''shipped''" demo_env]
      triggerOrderUpdate_absent [OF a, of Undefined demo_env]
      triggerOrderUpdate_absent [OF a', of Undefined demo_env]
    by simp
qed

section \<open>Properties of the routes\<close>

lemma send_where_skipped:
  "map_of cs k = Some c \<Longrightarrow> \<not> sel c \<Longrightarrow> map_of (send_where sel msg cs) k = Some c"
  by (induction sel msg cs rule: send_where.induct) (auto split: option.splits if_splits)

lemma send_where_written:
  "map_of cs k = Some c \<Longrightarrow> sel c \<Longrightarrow> \<not> write_throws (response c) \<Longrightarrow>
     map_of (send_where sel msg cs) k
       = Some (c\<lparr>response := (response c)\<lparr>written := written (response c) @ [msg]\<rparr>\<rparr>)"
  by (induction sel msg cs rule: send_where.induct)
     (auto simp add: res_write_def split: option.splits if_splits)

lemma send_where_evicted:
  "distinct (map fst cs) \<Longrightarrow> map_of cs k = Some c \<Longrightarrow> sel c \<Longrightarrow> write_throws (response c) \<Longrightarrow>
     map_of (send_where sel msg cs) k = None"
proof (induction sel msg cs rule: send_where.induct)
  case (1 sel msg)
  then show ?case by simp
next
  case (2 sel msg k' client rest)
  have keys: "fst ` set (send_where sel msg rest) \<subseteq> fst ` set rest" for rest
    by (induction sel msg rest rule: send_where.induct) (auto split: option.splits if_splits)
  show ?case
  proof (cases "k' = k")
    case True
    with 2 have "client = c" and "k \<notin> fst ` set rest" by auto
    then have "k \<notin> fst ` set (send_where sel msg rest)" using keys by blast
    then have "map_of (send_where sel msg rest) k = None" by (simp add: map_of_eq_None_iff)
    with True \<open>client = c\<close> 2 show ?thesis by (simp add: res_write_def)
  next
    case False
    with 2 show ?thesis by (auto simp add: res_write_def split: option.splits)
  qed
qed

lemma sse_delivery:
  assumes "map_of cs k = Some c" and "\<not> write_throws (response c)"
  shows "map_of (sse_broadcast (order_update ord) cs) k =
     Some (if orderId ord \<in> subscribedOrders c
           then c\<lparr>response := (response c)\<lparr>written := written (response c) @ [order_update ord]\<rparr>\<rparr>
           else c)"
  using assms by (simp add: sse_broadcast_def send_where_written send_where_skipped)

lemma events_connect_client:
  "map_of (events_connect cs q cid connected now \<lparr>written = [], write_throws = False\<rparr>) cid =
     Some \<lparr>response = \<lparr>written = [connection_status connected now cid
                                      (if truthy q then to_string q else ''all_orders'')],
                         write_throws = False\<rparr>,
           subscribedOrders = (if truthy q then {to_string q} else {}),
           clientId = cid\<rparr>"
  by (simp add: events_connect_def res_write_def Let_def map_of_update_same)

text \<open>
  Claim C1, the code at the input where it departs from the claim. A client that connects
  with no \<open>orderId\<close> is told \<open>subscribedTo = all_orders\<close> and is stored with an empty
  subscription set; after an \<open>order_update\<close> for any order its stream holds the handshake
  only. A client that connects with the order's (non-empty) \<open>orderId\<close> receives the update
  after the handshake.
\<close>

theorem unfiltered_client_receives_no_order_update:
  "map_of (sse_broadcast (order_update ord)
             (events_connect cs Undefined cid connected now \<lparr>written = [], write_throws = False\<rparr>))
          cid
     = Some \<lparr>response = \<lparr>written = [connection_status connected now cid ''all_orders''],
                          write_throws = False\<rparr>,
             subscribedOrders = {},
             clientId = cid\<rparr>
   \<and> map_of (sse_broadcast (order_update ord)
               (events_connect cs (Str (orderId ord)) cid connected now
                  \<lparr>written = [], write_throws = False\<rparr>))
            cid
     = (if orderId ord = []
        then Some \<lparr>response = \<lparr>written = [connection_status connected now cid ''all_orders''],
                                write_throws = False\<rparr>,
                   subscribedOrders = {},
                   clientId = cid\<rparr>
        else Some \<lparr>response = \<lparr>written = [connection_status connected now cid (orderId ord),
                                           order_update ord],
                                write_throws = False\<rparr>,
                   subscribedOrders = {orderId ord},
                   clientId = cid\<rparr>)"
  by (simp add: sse_delivery [OF events_connect_client])

text \<open>
  Claim C8, the code at the input where it departs from the claim. The route of the
  server-sent-event versions never answers 400; the route of the WebSocket version answers
  400 and changes nothing when the status is missing or empty. For the first default order
  and a body without status, the unguarded route stores \<^verbatim>\<open>undefined\<close> as the status and
  appends a Manual history entry titled Status Update and a message; the broadcast then
  throws, since \<^verbatim>\<open>wss\<close> is the broadcast function, and the route answers 500. For an
  unknown order it answers 200. With a status present it answers 500 for the existing order
  as well, where the guarded route with its WebSocket server answers 200.
\<close>

theorem trigger_update_without_status:
  "fst (snd (trigger_update_sse sys oid st env)) \<noteq> 400
   \<and> trigger_update_ws sys oid Undefined env = (sys, (400, error_json ''Status is required''))
   \<and> trigger_update_ws sys oid (Str []) env = (sys, (400, error_json ''Status is required''))
   \<and> getOrder (storage (fst (trigger_update_sse sse_system ''ORD-2024-001'' Undefined demo_env)))
        ''ORD-2024-001''
     = Some \<lparr>orderId = ''ORD-2024-001'', customerId = ''CUST-123'', customerName = ''John Doe'',
          totalAmount = ''89.99'', itemCount = 3, status = Undefined,
          id_order = 1, createdAt = 1000, updatedAt = 2000\<rparr>
   \<and> getOrderStatusHistory
        (storage (fst (trigger_update_sse sse_system ''ORD-2024-001'' Undefined demo_env)))
        ''ORD-2024-001''
     = [\<lparr>hist_orderId = ''ORD-2024-001'', hist_status = Undefined,
         title = Str ''Status Update'', description = Str ''Status has been updated.'',
         operator = ''Manual'', duration = Some ''15m'', hist_id = 4, hist_timestamp = 2001\<rparr>]
   \<and> getOrderMessages
        (storage (fst (trigger_update_sse sse_system ''ORD-2024-001'' Undefined demo_env)))
        ''ORD-2024-001''
     = [\<lparr>msg_orderId = ''ORD-2024-001'', messageType = ''status_update'',
         content = ''Order status manually updated to undefined'',
         metadata = Some [(''manualUpdate'', True)], msg_id = 5, msg_timestamp = 2002\<rparr>]
   \<and> snd (trigger_update_sse sse_system ''ORD-2024-001'' Undefined demo_env)
     = (500, error_json ''Failed to trigger update'')
   \<and> trigger_update_sse sse_system ''DOES-NOT-EXIST'' Undefined demo_env
     = (sse_system, (200, success_json ''Order update triggered''))
   \<and> snd (trigger_update_sse sse_system ''ORD-2024-001'' (Str ''shipped'') demo_env)
     = (500, error_json ''Failed to trigger update'')
   \<and> trigger_update_ws demo_system ''ORD-2024-001'' Undefined demo_env
     = (demo_system, (400, error_json ''Status is required''))
   \<and> snd (trigger_update_ws demo_system ''ORD-2024-001'' (Str ''shipped'') demo_env)
     = (200, success_json ''Order ORD-2024-001 updated to shipped'')"
proof -
  have tables: "getStatusTitle Undefined = Str ''Status Update''"
    "getStatusDescription Undefined = Str ''Status has been updated.''"
    by (simp_all add: getStatusTitle_def getStatusDescription_def lookup_or_def js_get_def
        object_prototype_names_def titles_def descriptions_def PENDING_def CONFIRMED_def
        PROCESSING_def SHIPPED_def DELIVERED_def CANCELLED_def)
  have never: "fst (snd (trigger_update_sse sys oid st env)) \<noteq> 400"
    by (simp add: trigger_update_sse_def split: prod.splits option.splits)
  have guard: "trigger_update_ws sys oid Undefined env
                 = (sys, (400, error_json ''Status is required''))"
    "trigger_update_ws sys oid (Str []) env = (sys, (400, error_json ''Status is required''))"
    by (simp_all add: trigger_update_ws_def)
  have thrown: "broadcastToClients (kafka sse_system) msg = Inl TypeError" for msg
    by (rule broadcast_function) (rule demo_wss)
  have absent: "getOrder (storage sse_system) ''DOES-NOT-EXIST'' = None"
    by (simp add: sse_system_def getOrder_def started_store)
  have unknown: "trigger_update_sse sse_system ''DOES-NOT-EXIST'' Undefined demo_env
     = (sse_system, (200, success_json ''Order update triggered''))"
    using absent by (simp add: trigger_update_sse_def triggerOrderUpdate_def updateOrder_absent)
  have sse: "getOrder (storage (fst (trigger_update_sse sse_system ''ORD-2024-001'' Undefined demo_env)))
        ''ORD-2024-001''
     = Some \<lparr>orderId = ''ORD-2024-001'', customerId = ''CUST-123'', customerName = ''John Doe'',
          totalAmount = ''89.99'', itemCount = 3, status = Undefined,
          id_order = 1, createdAt = 1000, updatedAt = 2000\<rparr>
   \<and> getOrderStatusHistory
        (storage (fst (trigger_update_sse sse_system ''ORD-2024-001'' Undefined demo_env)))
        ''ORD-2024-001''
     = [\<lparr>hist_orderId = ''ORD-2024-001'', hist_status = Undefined,
         title = Str ''Status Update'', description = Str ''Status has been updated.'',
         operator = ''Manual'', duration = Some ''15m'', hist_id = 4, hist_timestamp = 2001\<rparr>]
   \<and> getOrderMessages
        (storage (fst (trigger_update_sse sse_system ''ORD-2024-001'' Undefined demo_env)))
        ''ORD-2024-001''
     = [\<lparr>msg_orderId = ''ORD-2024-001'', messageType = ''status_update'',
         content = ''Order status manually updated to undefined'',
         metadata = Some [(''manualUpdate'', True)], msg_id = 5, msg_timestamp = 2002\<rparr>]
   \<and> snd (trigger_update_sse sse_system ''ORD-2024-001'' Undefined demo_env)
     = (500, error_json ''Failed to trigger update'')
   \<and> snd (trigger_update_sse sse_system ''ORD-2024-001'' (Str ''shipped'') demo_env)
     = (500, error_json ''Failed to trigger update'')"
    by (simp add: trigger_update_sse_def triggerOrderUpdate_existing [OF sse_order_1] thrown
        getOrder_def map_of_update_same getOrderMessages_def getOrderStatusHistory_def
        sse_logs [unfolded getOrderMessages_def getOrderStatusHistory_def]
        demo_duration demo_times tables STATUS_UPDATE_def)
  have ws: "trigger_update_ws demo_system ''ORD-2024-001'' Undefined demo_env
     = (demo_system, (400, error_json ''Status is required''))
   \<and> snd (trigger_update_ws demo_system ''ORD-2024-001'' (Str ''shipped'') demo_env)
     = (200, success_json ''Order ORD-2024-001 updated to shipped'')"
    by (simp add: trigger_update_ws_def triggerOrderUpdate_existing [OF demo_order_1]
        demo_broadcast)
  show ?thesis
    using never guard unknown sse ws by blast
qed

end
